theory Spec2Isabelle
  imports Main
begin

section \<open>JavaScript values and objects\<close>

text \<open>
  The parameter objects of \<^verbatim>\<open>src/modules/private.ts\<close> are plain JavaScript objects:
  the code reads properties, tests them for truthiness and copies them with the spread
  operator, and never looks at their TypeScript types. A value is therefore one of the
  primitive values; numeric parameters (\<^verbatim>\<open>limit\<close>) are integers here, no operation
  of the module computes with them.
\<close>

datatype jsval = JUndefined | JNull | JBool bool | JNum int | JStr string

text \<open>An object is the list of its own properties in insertion order.\<close>

type_synonym jsobj = "(string \<times> jsval) list"

text \<open>JavaScript truthiness, as \<^verbatim>\<open>!x\<close> and \<^verbatim>\<open>x || y\<close> test it.\<close>

fun truthy :: "jsval \<Rightarrow> bool" where
  "truthy JUndefined = False"
| "truthy JNull = False"
| "truthy (JBool b) = b"
| "truthy (JNum n) = (n \<noteq> 0)"
| "truthy (JStr s) = (s \<noteq> [])"

text \<open>\<^verbatim>\<open>a || b\<close>\<close>

definition js_or :: "jsval \<Rightarrow> jsval \<Rightarrow> jsval" where
  "js_or a b = (if truthy a then a else b)"

text \<open>\<^verbatim>\<open>obj.key\<close>: a missing property reads as \<^verbatim>\<open>undefined\<close>.\<close>

definition get_prop :: "jsobj \<Rightarrow> string \<Rightarrow> jsval" where
  "get_prop obj k = (case map_of obj k of None \<Rightarrow> JUndefined | Some v \<Rightarrow> v)"

text \<open>
  Defining a property, as one entry \<^verbatim>\<open>key: value\<close> of an object literal does after a
  spread: an existing property keeps its place and takes the new value, a new one is
  appended.
\<close>

fun set_prop :: "jsobj \<Rightarrow> string \<Rightarrow> jsval \<Rightarrow> jsobj" where
  "set_prop [] k v = [(k, v)]"
| "set_prop ((k', v') # rest) k v =
     (if k' = k then (k, v) # rest else (k', v') # set_prop rest k v)"

text \<open>\<^verbatim>\<open>Object.keys(obj)\<close>\<close>

definition Object_keys :: "jsobj \<Rightarrow> string list" where
  "Object_keys obj = map fst obj"

section \<open>Number to string, and the generated client id\<close>

text \<open>
  \<^verbatim>\<open>Math.random()\<close> returns a Number in the interval from 0 (inclusive) to 1
  (exclusive). \<^verbatim>\<open>Number.prototype.toString\<close> (ECMA-262, Number::toString with radix
  10) works on the decimal form of the number: \<open>Dec s n\<close> is the positive number
  \<open>s * 10 ^ (n - k)\<close>, where \<open>k\<close> is the number of decimal digits of \<open>s\<close> and \<open>s\<close>
  is the shortest digit string that reads back as the same Number; \<open>Zero\<close> is \<open>+0\<close>.
\<close>

datatype jsnumber = Zero | Dec nat int

definition digit_char :: "nat \<Rightarrow> char" where
  "digit_char d = ''0123456789'' ! d"

function nat_digits :: "nat \<Rightarrow> string" where
  "nat_digits n =
     (if n < 10 then [digit_char n] else nat_digits (n div 10) @ [digit_char (n mod 10)])"
  by pat_completeness auto
termination
  by (relation "measure id") auto

declare nat_digits.simps [simp del]

definition Number_toString :: "jsnumber \<Rightarrow> string" where
  "Number_toString x =
     (case x of
        Zero \<Rightarrow> ''0''
      | Dec s n \<Rightarrow>
          (let ds = nat_digits s; k = int (length ds) in
           if k \<le> n \<and> n \<le> 21 then ds @ replicate (nat (n - k)) CHR ''0''
           else if 0 < n \<and> n \<le> 21 then take (nat n) ds @ ''.'' @ drop (nat n) ds
           else if -6 < n \<and> n \<le> 0 then ''0.'' @ replicate (nat (- n)) CHR ''0'' @ ds
           else
             (let e = n - 1;
                  sgn = (if e < 0 then ''-'' else ''+'');
                  ex = nat_digits (nat \<bar>e\<bar>) in
              if k = 1 then ds @ ''e'' @ sgn @ ex
              else take 1 ds @ ''.'' @ drop 1 ds @ ''e'' @ sgn @ ex)))"

text \<open>\<^verbatim>\<open>str.slice(2)\<close>: the string from index 2 on (empty when it is shorter).\<close>

definition slice2 :: "string \<Rightarrow> string" where
  "slice2 s = drop 2 s"

text \<open>\<^verbatim>\<open>str.replace(/^0+/, '')\<close>: the longest run of zeros at the start is removed.\<close>

definition strip_leading_zeros :: "string \<Rightarrow> string" where
  "strip_leading_zeros s = dropWhile (\<lambda>c. c = CHR ''0'') s"

text \<open>
  \<^verbatim>\<open>Math.random().toString().slice(2).replace(/^0+/, '')\<close>, lines 232 and 312, as a
  function of the Number that \<^verbatim>\<open>Math.random()\<close> returned.
\<close>

definition generateClientId :: "jsnumber \<Rightarrow> string" where
  "generateClientId r = strip_leading_zeros (slice2 (Number_toString r))"

text \<open>A non-negative integer numeral: a non-empty string of decimal digits.\<close>

definition is_digit :: "char \<Rightarrow> bool" where
  "is_digit c = (c \<in> set ''0123456789'')"

definition is_numeral :: "string \<Rightarrow> bool" where
  "is_numeral s = (s \<noteq> [] \<and> list_all is_digit s)"

definition no_leading_zero :: "string \<Rightarrow> bool" where
  "no_leading_zero s = (case s of [] \<Rightarrow> True | c # _ \<Rightarrow> c \<noteq> CHR ''0'')"

section \<open>Key pairs, errors and the collaborators of the module\<close>

record KeyPair =
  publicKey :: string
  privateKey :: string

text \<open>A key as the constructors take it: \<^verbatim>\<open>string | KeyPair\<close>.\<close>

datatype KeyInput = KeyString string | KeyObject KeyPair

text \<open>Truthiness of an optional \<^verbatim>\<open>string | KeyPair\<close>: an object is always truthy.\<close>

fun truthy_key :: "KeyInput option \<Rightarrow> bool" where
  "truthy_key None = False"
| "truthy_key (Some (KeyString s)) = (s \<noteq> [])"
| "truthy_key (Some (KeyObject kp)) = True"

text \<open>
  \<open>Error msg\<close> is \<^verbatim>\<open>throw new Error(msg)\<close> of this code; \<open>Thrown x\<close> is whatever
  a collaborator (signing library, key derivation, HTTP client) throws or rejects
  with. The methods are \<^verbatim>\<open>async\<close>: an error is the rejection of the returned promise.
\<close>

datatype error = Error string | Thrown string

datatype RequestMethod = GET | POST | PUT | DELETE

text \<open>\<^verbatim>\<open>ApiMethod\<close> of the signing library, and the table of lines 41 to 46.\<close>

datatype ApiMethod = ApiGET | ApiPOST | ApiPUT | ApiDELETE

fun METHOD_ENUM_MAP :: "RequestMethod \<Rightarrow> ApiMethod" where
  "METHOD_ENUM_MAP DELETE = ApiDELETE"
| "METHOD_ENUM_MAP GET = ApiGET"
| "METHOD_ENUM_MAP POST = ApiPOST"
| "METHOD_ENUM_MAP PUT = ApiPUT"

text \<open>The request envelope handed to \<^verbatim>\<open>ApiRequest.fromInternal\<close> (lines 384 to 390).\<close>

record ApiRequestInternal =
  req_body :: string
  req_requestPath :: string
  req_method :: ApiMethod
  req_publicKey :: string
  req_expiresAt :: string

text \<open>The argument of \<^verbatim>\<open>axiosRequest\<close> (lines 84 to 89).\<close>

record AxiosRequest =
  url :: string
  http_method :: RequestMethod
  http_data :: "jsobj option"
  headers :: "(string \<times> string) list"

type_synonym Data = jsobj

text \<open>
  What the module imports or reads from its environment, taken as parameters: the
  Number \<^verbatim>\<open>Math.random()\<close> returns, the string \<^verbatim>\<open>new Date().toISOString()\<close> returns,
  \<^verbatim>\<open>JSON.stringify\<close>, \<^verbatim>\<open>generateQueryPath\<close> of \<^verbatim>\<open>../helpers/request-helpers\<close>,
  \<^verbatim>\<open>axiosRequest\<close> of \<^verbatim>\<open>../lib/axios\<close>, and of the signing library
  \<^verbatim>\<open>StarkExOrder.fromInternal(o).sign(kp)\<close>, \<^verbatim>\<open>StarkExWithdrawal.fromInternal(o).sign(kp)\<close>,
  \<^verbatim>\<open>ApiRequest.fromInternal(r).sign(key)\<close> and \<^verbatim>\<open>asSimpleKeyPair(asEcKeyPair(k))\<close>.
  Each collaborator that can throw returns an \<open>error + _\<close>.
\<close>

record world =
  Math_random :: jsnumber
  Date_toISOString :: string
  JSON_stringify :: "jsobj \<Rightarrow> string"
  generateQueryPath :: "string \<Rightarrow> jsobj \<Rightarrow> string"
  axiosRequest :: "AxiosRequest \<Rightarrow> error + Data"
  StarkExOrder_sign :: "jsobj \<Rightarrow> KeyPair \<Rightarrow> error + string"
  StarkExWithdrawal_sign :: "jsobj \<Rightarrow> KeyPair \<Rightarrow> error + string"
  ApiRequest_sign :: "ApiRequestInternal \<Rightarrow> string \<Rightarrow> error + string"
  asKeyPair :: "KeyInput \<Rightarrow> error + KeyPair"

text \<open>
  The calls a method makes to the outside, in order: a value handed to the stark signing
  primitive with the key pair, a request envelope handed to the API request signer with
  the private key, or a request handed to the HTTP client.
\<close>

datatype event =
    OrderSigned jsobj KeyPair
  | WithdrawalSigned jsobj KeyPair
  | ApiSigned ApiRequestInternal string
  | Dispatched AxiosRequest

type_synonym 'a outcome = "event list \<times> (error + 'a)"

definition after :: "event list \<Rightarrow> 'a outcome \<Rightarrow> 'a outcome" where
  "after evs out = (evs @ fst out, snd out)"

definition dispatched :: "'a outcome \<Rightarrow> AxiosRequest list" where
  "dispatched out = concat (map (\<lambda>e. case e of Dispatched r \<Rightarrow> [r] | _ \<Rightarrow> []) (fst out))"

definition stark_signed :: "'a outcome \<Rightarrow> (jsobj \<times> KeyPair) list" where
  "stark_signed out =
     concat (map (\<lambda>e. case e of OrderSigned v kp \<Rightarrow> [(v, kp)]
                            | WithdrawalSigned v kp \<Rightarrow> [(v, kp)]
                            | _ \<Rightarrow> []) (fst out))"

definition api_signed :: "'a outcome \<Rightarrow> (ApiRequestInternal \<times> string) list" where
  "api_signed out =
     concat (map (\<lambda>e. case e of ApiSigned r k \<Rightarrow> [(r, k)] | _ \<Rightarrow> []) (fst out))"

section \<open>The Private module\<close>

record Private =
  host :: string
  apiKeyPair :: KeyPair
  starkKeyPair :: "KeyPair option"

text \<open>The constructor, lines 53 to 63.\<close>

definition Private_new ::
  "world \<Rightarrow> string \<Rightarrow> KeyInput \<Rightarrow> KeyInput option \<Rightarrow> error + Private" where
  "Private_new w h apiPrivateKey starkPrivateKey =
     (case asKeyPair w apiPrivateKey of
        Inl e \<Rightarrow> Inl e
      | Inr akp \<Rightarrow>
          if truthy_key starkPrivateKey then
            (case asKeyPair w (the starkPrivateKey) of
               Inl e \<Rightarrow> Inl e
             | Inr skp \<Rightarrow> Inr \<lparr>host = h, apiKeyPair = akp, starkKeyPair = Some skp\<rparr>)
          else Inr \<lparr>host = h, apiKeyPair = akp, starkKeyPair = None\<rparr>)"

text \<open>
  \<^verbatim>\<open>sign\<close>, lines 373 to 391. \<open>sign_envelope\<close> is the argument of
  \<^verbatim>\<open>ApiRequest.fromInternal\<close>; an object is always truthy, so the body is empty
  exactly when \<^verbatim>\<open>data\<close> is absent.
\<close>

definition sign_envelope ::
  "world \<Rightarrow> Private \<Rightarrow> string \<Rightarrow> RequestMethod \<Rightarrow> string \<Rightarrow> jsobj option \<Rightarrow> ApiRequestInternal" where
  "sign_envelope w p requestPath m timestamp d =
     \<lparr>req_body = (case d of Some obj \<Rightarrow> JSON_stringify w obj | None \<Rightarrow> []),
      req_requestPath = requestPath,
      req_method = METHOD_ENUM_MAP m,
      req_publicKey = publicKey (apiKeyPair p),
      req_expiresAt = timestamp\<rparr>"

definition sign ::
  "world \<Rightarrow> Private \<Rightarrow> string \<Rightarrow> RequestMethod \<Rightarrow> string \<Rightarrow> jsobj option \<Rightarrow> string outcome" where
  "sign w p requestPath m timestamp d =
     (let r = sign_envelope w p requestPath m timestamp d;
          k = privateKey (apiKeyPair p)
      in ([ApiSigned r k], ApiRequest_sign w r k))"

text \<open>\<^verbatim>\<open>request\<close>, lines 67 to 90.\<close>

definition request ::
  "world \<Rightarrow> Private \<Rightarrow> RequestMethod \<Rightarrow> string \<Rightarrow> jsobj option \<Rightarrow> Data outcome" where
  "request w p m endpoint d =
     (let requestPath = ''/v3/'' @ endpoint;
          timestamp = Date_toISOString w
      in case sign w p requestPath m timestamp d of
           (evs, Inl e) \<Rightarrow> (evs, Inl e)
         | (evs, Inr sg) \<Rightarrow>
             (let hs = [(''DYDX-SIGNATURE'', sg),
                        (''DYDX-API-KEY'', publicKey (apiKeyPair p)),
                        (''DYDX-TIMESTAMP'', timestamp)];
                  r = \<lparr>url = host p @ requestPath, http_method = m, http_data = d, headers = hs\<rparr>
              in (evs @ [Dispatched r], axiosRequest w r)))"

text \<open>\<^verbatim>\<open>get\<close>, \<^verbatim>\<open>post\<close>, \<^verbatim>\<open>put\<close>, \<^verbatim>\<open>delete\<close>: lines 92 to 118.\<close>

definition get :: "world \<Rightarrow> Private \<Rightarrow> string \<Rightarrow> jsobj \<Rightarrow> Data outcome" where
  "get w p endpoint params = request w p GET (generateQueryPath w endpoint params) None"

definition post :: "world \<Rightarrow> Private \<Rightarrow> string \<Rightarrow> jsobj \<Rightarrow> Data outcome" where
  "post w p endpoint d = request w p POST endpoint (Some d)"

definition put :: "world \<Rightarrow> Private \<Rightarrow> string \<Rightarrow> jsobj \<Rightarrow> Data outcome" where
  "put w p endpoint d = request w p PUT endpoint (Some d)"

definition delete :: "world \<Rightarrow> Private \<Rightarrow> string \<Rightarrow> jsobj \<Rightarrow> Data outcome" where
  "delete w p endpoint params = request w p DELETE (generateQueryPath w endpoint params) None"

text \<open>
  The client id both methods resolve first (lines 232 and 312):
  \<^verbatim>\<open>params.clientId || Math.random().toString().slice(2).replace(/^0+/, '')\<close>.
\<close>

definition resolveClientId :: "world \<Rightarrow> jsobj \<Rightarrow> jsval" where
  "resolveClientId w params =
     js_or (get_prop params ''clientId'') (JStr (generateClientId (Math_random w)))"

text \<open>The object literal of lines 239 to 245.\<close>

definition orderToSign :: "jsobj \<Rightarrow> jsval \<Rightarrow> string \<Rightarrow> KeyPair \<Rightarrow> jsobj" where
  "orderToSign params clientId positionId kp =
     set_prop (set_prop (set_prop (set_prop params
       ''clientId'' clientId)
       ''positionId'' (JStr positionId))
       ''starkKey'' (JStr (publicKey kp)))
       ''expiresAt'' (get_prop params ''expiration'')"

text \<open>The object literal of lines 321 to 328.\<close>

definition withdrawalToSign :: "jsobj \<Rightarrow> jsval \<Rightarrow> string \<Rightarrow> KeyPair \<Rightarrow> jsobj" where
  "withdrawalToSign params clientId positionId kp =
     set_prop (set_prop (set_prop (set_prop (set_prop params
       ''clientId'' clientId)
       ''starkKey'' (JStr (publicKey kp)))
       ''debitAmount'' (get_prop params ''amount''))
       ''expiresAt'' (get_prop params ''expiration''))
       ''positionId'' (JStr positionId)"

text \<open>The object literals of lines 250 to 254 and 333 to 337.\<close>

definition apiPayload :: "jsobj \<Rightarrow> jsval \<Rightarrow> jsval \<Rightarrow> jsobj" where
  "apiPayload params clientId signature =
     set_prop (set_prop params ''clientId'' clientId) ''signature'' signature"

text \<open>\<^verbatim>\<open>createOrder\<close>, lines 224 to 260.\<close>

definition createOrder :: "world \<Rightarrow> Private \<Rightarrow> jsobj \<Rightarrow> string \<Rightarrow> Data outcome" where
  "createOrder w p params positionId =
     (let clientId = resolveClientId w params;
          signature = get_prop params ''signature''
      in if \<not> truthy signature then
           (case starkKeyPair p of
              None \<Rightarrow>
                ([], Inl (Error
                  ''Order is not signed and client was not initialized with starkPrivateKey''))
            | Some kp \<Rightarrow>
                (let v = orderToSign params clientId positionId kp
                 in case StarkExOrder_sign w v kp of
                      Inl e \<Rightarrow> ([OrderSigned v kp], Inl e)
                    | Inr sg \<Rightarrow>
                        after [OrderSigned v kp]
                          (post w p ''orders'' (apiPayload params clientId (JStr sg)))))
         else post w p ''orders'' (apiPayload params clientId signature))"

text \<open>\<^verbatim>\<open>createWithdrawal\<close>, lines 304 to 343.\<close>

definition createWithdrawal :: "world \<Rightarrow> Private \<Rightarrow> jsobj \<Rightarrow> string \<Rightarrow> Data outcome" where
  "createWithdrawal w p params positionId =
     (let clientId = resolveClientId w params;
          signature = get_prop params ''signature''
      in if \<not> truthy signature then
           (case starkKeyPair p of
              None \<Rightarrow>
                ([], Inl (Error
                  ''Withdrawal is not signed and client was not initialized with starkPrivateKey''))
            | Some kp \<Rightarrow>
                (let v = withdrawalToSign params clientId positionId kp
                 in case StarkExWithdrawal_sign w v kp of
                      Inl e \<Rightarrow> ([WithdrawalSigned v kp], Inl e)
                    | Inr sg \<Rightarrow>
                        after [WithdrawalSigned v kp]
                          (post w p ''withdrawals'' (apiPayload params clientId (JStr sg)))))
         else post w p ''withdrawals'' (apiPayload params clientId signature))"

text \<open>
  Both methods are declared \<^verbatim>\<open>async\<close> (lines 224 and 304). What the call of a function
  gives its caller at once is an exception or a value; an \<^verbatim>\<open>async\<close> function never
  throws to its caller: it runs its body and returns a promise, rejected with what the
  body threw. So the outcome of the body of a method, above, is the settlement of the
  promise that the call returns.
\<close>

datatype 'a invocation = Throws error | ReturnsPromise "error + 'a"

definition async :: "'a outcome \<Rightarrow> event list \<times> 'a invocation" where
  "async body = (fst body, ReturnsPromise (snd body))"

text \<open>A call fails synchronously when it throws to its caller.\<close>

definition fails_synchronously :: "event list \<times> 'a invocation \<Rightarrow> bool" where
  "fails_synchronously c = (case snd c of Throws e \<Rightarrow> True | ReturnsPromise r \<Rightarrow> False)"

text \<open>The promise is rejected, with the error \<open>e\<close>.\<close>

definition rejects_with :: "event list \<times> 'a invocation \<Rightarrow> error \<Rightarrow> bool" where
  "rejects_with c e = (snd c = ReturnsPromise (Inl e))"

section \<open>The client facade\<close>

text \<open>
  The second file of the sources is the client class \<^verbatim>\<open>DydxClient\<close>. The classes it
  builds (\<^verbatim>\<open>Web3\<close>, \<^verbatim>\<open>Public\<close>, \<^verbatim>\<open>Keys\<close>, \<^verbatim>\<open>Onboarding\<close>, \<^verbatim>\<open>Eth\<close>) are
  imported: an instance is the constructor applied to its arguments. The four objects
  \<^verbatim>\<open>privateNotSupported\<close>, \<^verbatim>\<open>keysNotSupported\<close>, \<^verbatim>\<open>onboardingNotSupported\<close> and
  \<^verbatim>\<open>ethNotSupported\<close> are imported too; a getter returns an instance or one of them.
\<close>

datatype Provider = Provider string

datatype Web3 = Web3 "Provider option"

datatype Public = Public string

datatype Keys = Keys string Web3

datatype Onboarding = Onboarding string Web3

datatype Eth = Eth Web3

datatype stub = privateNotSupported | keysNotSupported | onboardingNotSupported | ethNotSupported

datatype 'm gated = Instance 'm | Stub stub

record ClientOptions =
  opt_apiTimeout :: "int option"
  opt_apiPrivateKey :: "KeyInput option"
  opt_starkPrivateKey :: "KeyInput option"
  opt_web3Provider :: "Provider option"

text \<open>The default \<^verbatim>\<open>options = {}\<close>.\<close>

definition no_options :: ClientOptions where
  "no_options =
     \<lparr>opt_apiTimeout = None, opt_apiPrivateKey = None, opt_starkPrivateKey = None,
      opt_web3Provider = None\<rparr>"

record DydxClient =
  client_host :: string
  apiTimeout :: "int option"
  apiPrivateKey :: "KeyInput option"
  starkPrivateKey :: "KeyInput option"
  web3 :: "Web3 option"
  public_module :: Public
  private_module :: "Private option"
  keys_module :: "Keys option"
  onboarding_module :: "Onboarding option"
  eth_module :: "Eth option"

text \<open>
  The constructor, lines 439 to 452 of the sources: \<^verbatim>\<open>this.web3\<close> is assigned
  \<^verbatim>\<open>new Web3(options.web3Provider)\<close> whatever the options hold.
\<close>

definition DydxClient_new :: "string \<Rightarrow> ClientOptions \<Rightarrow> DydxClient" where
  "DydxClient_new h options =
     \<lparr>client_host = h,
      apiTimeout = opt_apiTimeout options,
      apiPrivateKey = opt_apiPrivateKey options,
      starkPrivateKey = opt_starkPrivateKey options,
      web3 = Some (Web3 (opt_web3Provider options)),
      public_module = Public h,
      private_module = None,
      keys_module = None,
      onboarding_module = None,
      eth_module = None\<rparr>"

text \<open>
  The getters, lines 464 to 519. Each returns the module and the client with the module
  it has just memoized. An object is truthy, so \<^verbatim>\<open>if (this.web3)\<close> asks whether the
  field is set.
\<close>

definition get_private :: "world \<Rightarrow> DydxClient \<Rightarrow> (error + Private gated) \<times> DydxClient" where
  "get_private w c =
     (case private_module c of
        Some m \<Rightarrow> (Inr (Instance m), c)
      | None \<Rightarrow>
          if truthy_key (apiPrivateKey c) then
            (case Private_new w (client_host c) (the (apiPrivateKey c)) (starkPrivateKey c) of
               Inl e \<Rightarrow> (Inl e, c)
             | Inr m \<Rightarrow> (Inr (Instance m), c\<lparr>private_module := Some m\<rparr>))
          else (Inr (Stub privateNotSupported), c))"

definition get_keys :: "DydxClient \<Rightarrow> Keys gated \<times> DydxClient" where
  "get_keys c =
     (case keys_module c of
        Some m \<Rightarrow> (Instance m, c)
      | None \<Rightarrow>
          (case web3 c of
             Some w3 \<Rightarrow>
               (let m = Keys (client_host c) w3 in (Instance m, c\<lparr>keys_module := Some m\<rparr>))
           | None \<Rightarrow> (Stub keysNotSupported, c)))"

definition get_onboarding :: "DydxClient \<Rightarrow> Onboarding gated \<times> DydxClient" where
  "get_onboarding c =
     (case onboarding_module c of
        Some m \<Rightarrow> (Instance m, c)
      | None \<Rightarrow>
          (case web3 c of
             Some w3 \<Rightarrow>
               (let m = Onboarding (client_host c) w3
                in (Instance m, c\<lparr>onboarding_module := Some m\<rparr>))
           | None \<Rightarrow> (Stub onboardingNotSupported, c)))"

definition get_eth :: "DydxClient \<Rightarrow> Eth gated \<times> DydxClient" where
  "get_eth c =
     (case eth_module c of
        Some m \<Rightarrow> (Instance m, c)
      | None \<Rightarrow>
          (case web3 c of
             Some w3 \<Rightarrow> (let m = Eth w3 in (Instance m, c\<lparr>eth_module := Some m\<rparr>))
           | None \<Rightarrow> (Stub ethNotSupported, c)))"

section \<open>Properties of the assembled objects\<close>

text \<open>
  \<open>carries_exactly params v injected\<close>: the object \<open>v\<close> has the properties of
  \<open>params\<close> and the injected ones and no other, every injected property has its
  injected value, and every other property has the value it has in \<open>params\<close>.
\<close>

definition carries_exactly :: "jsobj \<Rightarrow> jsobj \<Rightarrow> (string \<times> jsval) list \<Rightarrow> bool" where
  "carries_exactly params v injected =
     (set (Object_keys v) = set (Object_keys params) \<union> set (map fst injected) \<and>
      list_all (\<lambda>(k, x). get_prop v k = x) injected \<and>
      list_all (\<lambda>k. k \<in> set (map fst injected) \<or> get_prop v k = get_prop params k)
        (Object_keys params))"

text \<open>
  The properties a signable value gets besides the caller's: the client id, the position
  id, the stark public key, and the expiration under the name the signing library reads.
\<close>

definition signable_fields :: "jsobj \<Rightarrow> jsval \<Rightarrow> string \<Rightarrow> KeyPair \<Rightarrow> (string \<times> jsval) list" where
  "signable_fields params clientId positionId kp =
     [(''clientId'', clientId),
      (''positionId'', JStr positionId),
      (''starkKey'', JStr (publicKey kp)),
      (''expiresAt'', get_prop params ''expiration'')]"

text \<open>
  \<open>posts_payload p endpoint params clientId signature r\<close>: the request \<open>r\<close> is a POST to
  the endpoint under the version prefix, and its body is \<open>params\<close> plus the properties
  \<^verbatim>\<open>clientId\<close> and \<^verbatim>\<open>signature\<close> with the given values, and nothing else.
\<close>

definition posts_payload ::
  "Private \<Rightarrow> string \<Rightarrow> jsobj \<Rightarrow> jsval \<Rightarrow> jsval \<Rightarrow> AxiosRequest \<Rightarrow> bool" where
  "posts_payload p endpoint params clientId signature r =
     (url r = host p @ ''/v3/'' @ endpoint \<and> http_method r = POST \<and>
      (case http_data r of
         None \<Rightarrow> False
       | Some d \<Rightarrow>
           carries_exactly params d [(''clientId'', clientId), (''signature'', signature)]))"

section \<open>A concrete world\<close>

text \<open>
  Stand-ins for the collaborators, to run the methods on concrete inputs: the signers
  answer with a string built from the key they were given, the HTTP client answers
  every request with the same body.
\<close>

definition sample_world :: world where
  "sample_world =
     \<lparr>Math_random = Dec 4711 0,
      Date_toISOString = ''2021-03-01T12:00:00.000Z'',
      JSON_stringify = (\<lambda>obj. ''{'' @ concat (map (\<lambda>(k, v). k @ '','') obj) @ ''}''),
      generateQueryPath =
        (\<lambda>endpoint params.
           if params = [] then endpoint
           else endpoint @ ''?'' @ concat (map (\<lambda>(k, v). k @ ''&'') params)),
      axiosRequest = (\<lambda>r. Inr [(''ok'', JBool True)]),
      StarkExOrder_sign = (\<lambda>v kp. Inr (''order-signed-by-'' @ privateKey kp)),
      StarkExWithdrawal_sign = (\<lambda>v kp. Inr (''withdrawal-signed-by-'' @ privateKey kp)),
      ApiRequest_sign = (\<lambda>r k. Inr (''request-signed-by-'' @ k)),
      asKeyPair =
        (\<lambda>k. case k of
               KeyString s \<Rightarrow> Inr \<lparr>publicKey = ''pub-'' @ s, privateKey = s\<rparr>
             | KeyObject kp \<Rightarrow> Inr kp)\<rparr>"

definition sample_stark_key :: KeyPair where
  "sample_stark_key = \<lparr>publicKey = ''pub-stark'', privateKey = ''stark''\<rparr>"

text \<open>A client with both key pairs, and one constructed without a stark key.\<close>

definition sample_client :: Private where
  "sample_client =
     \<lparr>host = ''https://api.dydx.exchange'',
      apiKeyPair = \<lparr>publicKey = ''pub-api'', privateKey = ''api''\<rparr>,
      starkKeyPair = Some sample_stark_key\<rparr>"

definition sample_client_no_stark :: Private where
  "sample_client_no_stark = sample_client\<lparr>starkKeyPair := None\<rparr>"

definition sample_order :: jsobj where
  "sample_order =
     [(''market'', JStr ''BTC-USD''), (''side'', JStr ''BUY''), (''type'', JStr ''LIMIT''),
      (''size'', JStr ''1''), (''price'', JStr ''20000''),
      (''expiration'', JStr ''2021-04-01T00:00:00.000Z'')]"

definition sample_withdrawal :: jsobj where
  "sample_withdrawal =
     [(''amount'', JStr ''100''), (''asset'', JStr ''USDC''),
      (''expiration'', JStr ''2021-04-01T00:00:00.000Z'')]"

section \<open>Objects: reading after writing\<close>

lemma get_prop_set_prop:
  "get_prop (set_prop obj k v) k' = (if k' = k then v else get_prop obj k')"
  by (induction obj) (auto simp: get_prop_def)

lemma Object_keys_set_prop:
  "Object_keys (set_prop obj k v) =
     (if k \<in> set (Object_keys obj) then Object_keys obj else Object_keys obj @ [k])"
  by (induction obj) (fastforce simp: Object_keys_def)+

lemma keys_set_prop:
  "set (Object_keys (set_prop obj k v)) = insert k (set (Object_keys obj))"
  by (auto simp: Object_keys_set_prop)

lemma get_prop_omitted:
  "k \<notin> set (Object_keys obj) \<Longrightarrow> get_prop obj k = JUndefined"
  by (induction obj) (auto simp: get_prop_def Object_keys_def)

lemma omitted_not_truthy:
  "k \<notin> set (Object_keys obj) \<Longrightarrow> \<not> truthy (get_prop obj k)"
  by (simp add: get_prop_omitted)

lemma api_signed_request:
  "api_signed (request w p m endpoint d) =
     [(sign_envelope w p (''/v3/'' @ endpoint) m (Date_toISOString w) d, privateKey (apiKeyPair p))]"
  by (simp add: request_def sign_def api_signed_def Let_def split: sum.splits)

lemma dispatched_request:
  "dispatched (request w p m endpoint d) =
     (case ApiRequest_sign w (sign_envelope w p (''/v3/'' @ endpoint) m (Date_toISOString w) d)
             (privateKey (apiKeyPair p)) of
        Inl e \<Rightarrow> []
      | Inr sg \<Rightarrow>
          [\<lparr>url = host p @ ''/v3/'' @ endpoint, http_method = m, http_data = d,
            headers = [(''DYDX-SIGNATURE'', sg),
                       (''DYDX-API-KEY'', publicKey (apiKeyPair p)),
                       (''DYDX-TIMESTAMP'', Date_toISOString w)]\<rparr>])"
  by (simp add: request_def sign_def dispatched_def Let_def split: sum.splits)

lemma stark_signed_request: "stark_signed (request w p m endpoint d) = []"
  by (simp add: request_def sign_def stark_signed_def Let_def split: sum.splits)

lemma dispatched_after:
  "dispatched (after [OrderSigned v kp] out) = dispatched out"
  "dispatched (after [WithdrawalSigned v kp] out) = dispatched out"
  by (simp_all add: dispatched_def after_def)

lemma stark_signed_after:
  "stark_signed (after [OrderSigned v kp] out) = (v, kp) # stark_signed out"
  "stark_signed (after [WithdrawalSigned v kp] out) = (v, kp) # stark_signed out"
  by (simp_all add: stark_signed_def after_def)

lemma dispatched_no_request:
  "dispatched ([], x) = []"
  "dispatched ([OrderSigned v kp], x) = []"
  "dispatched ([WithdrawalSigned v kp], x) = []"
  by (simp_all add: dispatched_def)

lemma stark_signed_simple:
  "stark_signed ([], x) = []"
  "stark_signed ([OrderSigned v kp], x) = [(v, kp)]"
  "stark_signed ([WithdrawalSigned v kp], x) = [(v, kp)]"
  by (simp_all add: stark_signed_def)

lemma createOrder_unsigned_no_key:
  assumes "\<not> truthy (get_prop params ''signature'')" and "starkKeyPair p = None"
  shows "createOrder w p params positionId =
           ([], Inl (Error ''Order is not signed and client was not initialized with starkPrivateKey''))"
  using assms by (simp add: createOrder_def Let_def)

lemma createWithdrawal_unsigned_no_key:
  assumes "\<not> truthy (get_prop params ''signature'')" and "starkKeyPair p = None"
  shows "createWithdrawal w p params positionId =
           ([], Inl (Error ''Withdrawal is not signed and client was not initialized with starkPrivateKey''))"
  using assms by (simp add: createWithdrawal_def Let_def)

lemma createOrder_dispatched:
  assumes "r \<in> set (dispatched (createOrder w p params positionId))"
  shows "\<exists>sg. r \<in> set (dispatched (post w p ''orders''
                 (apiPayload params (resolveClientId w params) sg)))"
  using assms
  by (auto simp: createOrder_def Let_def dispatched_after dispatched_no_request
           split: if_splits option.splits sum.splits)

lemma createWithdrawal_dispatched:
  assumes "r \<in> set (dispatched (createWithdrawal w p params positionId))"
  shows "\<exists>sg. r \<in> set (dispatched (post w p ''withdrawals''
                 (apiPayload params (resolveClientId w params) sg)))"
  using assms
  by (auto simp: createWithdrawal_def Let_def dispatched_after dispatched_no_request
           split: if_splits option.splits sum.splits)

lemma dispatched_post:
  assumes "r \<in> set (dispatched (post w p endpoint d))"
  shows "url r = host p @ ''/v3/'' @ endpoint \<and> http_method r = POST \<and> http_data r = Some d"
  using assms by (auto simp: post_def dispatched_request split: sum.splits)

lemma carries_exactly_orderToSign:
  "carries_exactly params (orderToSign params c pos kp) (signable_fields params c pos kp)"
  by (auto simp: carries_exactly_def orderToSign_def signable_fields_def keys_set_prop
        get_prop_set_prop list_all_iff)

lemma carries_exactly_withdrawalToSign:
  "carries_exactly params (withdrawalToSign params c pos kp)
     (signable_fields params c pos kp @ [(''debitAmount'', get_prop params ''amount'')])"
  by (auto simp: carries_exactly_def withdrawalToSign_def signable_fields_def keys_set_prop
        get_prop_set_prop list_all_iff)

lemma carries_exactly_apiPayload:
  "carries_exactly params (apiPayload params c sg) [(''clientId'', c), (''signature'', sg)]"
  by (auto simp: carries_exactly_def apiPayload_def keys_set_prop get_prop_set_prop list_all_iff)

section \<open>The methods of the Private module\<close>

lemma Private_new_without_stark_key:
  assumes "\<not> truthy_key sk" and "Private_new w h k sk = Inr p"
  shows "starkKeyPair p = None"
  using assms by (auto simp: Private_new_def split: sum.splits)

text \<open>
  C1, as stated, fails: the call does not fail synchronously. The methods are
  \<^verbatim>\<open>async\<close>, so the error of line 237 does not leave the call as an exception; the
  call returns a promise, rejected with that error.
\<close>

theorem C1_counterexample:
  "''signature'' \<notin> set (Object_keys sample_order)
   \<and> starkKeyPair sample_client_no_stark = None
   \<and> \<not> fails_synchronously
         (async (createOrder sample_world sample_client_no_stark sample_order ''5''))
   \<and> async (createOrder sample_world sample_client_no_stark sample_order ''5'') =
       ([], ReturnsPromise (Inl (Error
          ''Order is not signed and client was not initialized with starkPrivateKey'')))"
  by (simp add: createOrder_def get_prop_def sample_order_def sample_client_no_stark_def
        sample_client_def Object_keys_def Let_def async_def fails_synchronously_def)

text \<open>
  C1, amended. A call of \<^verbatim>\<open>createOrder\<close> or \<^verbatim>\<open>createWithdrawal\<close> whose parameters
  have no \<^verbatim>\<open>signature\<close>, on a client that holds no stark key pair, returns a promise
  rejected with the error of line 237 (line 317 for a withdrawal), and has called
  nothing: no value was handed to a signing primitive and no request to the HTTP
  client.
\<close>

theorem C1_unsigned_without_stark_key:
  assumes "''signature'' \<notin> set (Object_keys params)" and "starkKeyPair p = None"
  shows "async (createOrder w p params positionId) =
           ([], ReturnsPromise (Inl (Error
              ''Order is not signed and client was not initialized with starkPrivateKey'')))
       \<and> async (createWithdrawal w p params positionId) =
           ([], ReturnsPromise (Inl (Error
              ''Withdrawal is not signed and client was not initialized with starkPrivateKey'')))
       \<and> rejects_with (async (createOrder w p params positionId))
           (Error ''Order is not signed and client was not initialized with starkPrivateKey'')
       \<and> rejects_with (async (createWithdrawal w p params positionId))
           (Error ''Withdrawal is not signed and client was not initialized with starkPrivateKey'')
       \<and> createOrder w p params positionId =
           ([], Inl (Error ''Order is not signed and client was not initialized with starkPrivateKey''))
       \<and> createWithdrawal w p params positionId =
           ([], Inl (Error ''Withdrawal is not signed and client was not initialized with starkPrivateKey''))
       \<and> dispatched (createOrder w p params positionId) = []
       \<and> dispatched (createWithdrawal w p params positionId) = []
       \<and> stark_signed (createOrder w p params positionId) = []
       \<and> stark_signed (createWithdrawal w p params positionId) = []"
proof -
  have falsy: "\<not> truthy (get_prop params ''signature'')"
    using assms(1) by (rule omitted_not_truthy)
  show ?thesis
    by (simp add: createOrder_unsigned_no_key [OF falsy assms(2)]
          createWithdrawal_unsigned_no_key [OF falsy assms(2)] dispatched_no_request
          stark_signed_simple async_def rejects_with_def)
qed

theorem C1_witness:
  "''signature'' \<notin> set (Object_keys sample_order)
   \<and> starkKeyPair sample_client_no_stark = None
   \<and> rejects_with (async (createOrder sample_world sample_client_no_stark sample_order ''5''))
       (Error ''Order is not signed and client was not initialized with starkPrivateKey'')
   \<and> rejects_with
       (async (createWithdrawal sample_world sample_client_no_stark sample_order ''5''))
       (Error ''Withdrawal is not signed and client was not initialized with starkPrivateKey'')
   \<and> fst (async (createOrder sample_world sample_client_no_stark sample_order ''5'')) = []
   \<and> dispatched (createOrder sample_world sample_client_no_stark sample_order ''5'') = []
   \<and> dispatched (createWithdrawal sample_world sample_client_no_stark sample_order ''5'') = []"
proof -
  have h1: "''signature'' \<notin> set (Object_keys sample_order)"
    by (simp add: sample_order_def Object_keys_def)
  have h2: "starkKeyPair sample_client_no_stark = None"
    by (simp add: sample_client_no_stark_def)
  show ?thesis
    using C1_unsigned_without_stark_key [OF h1 h2, of sample_world "''5''"] h1 h2
    by (simp add: dispatched_no_request async_def rejects_with_def)
qed

lemma posts_payload_apiPayload:
  assumes "url r = host p @ ''/v3/'' @ ep \<and> http_method r = POST
      \<and> http_data r = Some (apiPayload params c sg)"
  shows "posts_payload p ep params c sg r"
  using assms by (simp add: posts_payload_def carries_exactly_apiPayload)

lemma post_posts_payload:
  assumes "snd (sign w p (''/v3/'' @ ep) POST (Date_toISOString w)
             (Some (apiPayload params c sg))) = Inr a"
  shows "\<exists>r. dispatched (post w p ep (apiPayload params c sg)) = [r]
           \<and> posts_payload p ep params c sg r"
  using assms
  by (simp add: post_def dispatched_request sign_def Let_def posts_payload_def
        carries_exactly_apiPayload)

lemma createOrder_posts_supplied:
  assumes "r \<in> set (dispatched (createOrder w p params positionId))"
    and "truthy (get_prop params ''signature'')"
  shows "posts_payload p ''orders'' params (resolveClientId w params)
           (get_prop params ''signature'') r"
proof -
  have "r \<in> set (dispatched (post w p ''orders''
      (apiPayload params (resolveClientId w params) (get_prop params ''signature''))))"
    using assms by (simp add: createOrder_def Let_def)
  then show ?thesis
    by (intro posts_payload_apiPayload dispatched_post)
qed

lemma createWithdrawal_posts_supplied:
  assumes "r \<in> set (dispatched (createWithdrawal w p params positionId))"
    and "truthy (get_prop params ''signature'')"
  shows "posts_payload p ''withdrawals'' params (resolveClientId w params)
           (get_prop params ''signature'') r"
proof -
  have "r \<in> set (dispatched (post w p ''withdrawals''
      (apiPayload params (resolveClientId w params) (get_prop params ''signature''))))"
    using assms by (simp add: createWithdrawal_def Let_def)
  then show ?thesis
    by (intro posts_payload_apiPayload dispatched_post)
qed

lemma createOrder_posts_computed:
  assumes "r \<in> set (dispatched (createOrder w p params positionId))"
    and "\<not> truthy (get_prop params ''signature'')"
  shows "\<exists>kp s. starkKeyPair p = Some kp
           \<and> StarkExOrder_sign w
               (orderToSign params (resolveClientId w params) positionId kp) kp = Inr s
           \<and> posts_payload p ''orders'' params (resolveClientId w params) (JStr s) r"
proof (cases "starkKeyPair p")
  case None
  then show ?thesis
    using assms by (simp add: createOrder_def Let_def dispatched_no_request)
next
  case (Some kp)
  show ?thesis
  proof (cases "StarkExOrder_sign w
      (orderToSign params (resolveClientId w params) positionId kp) kp")
    case (Inl e)
    then show ?thesis
      using assms Some by (simp add: createOrder_def Let_def dispatched_no_request)
  next
    case (Inr s)
    then have "r \<in> set (dispatched (post w p ''orders''
        (apiPayload params (resolveClientId w params) (JStr s))))"
      using assms Some by (simp add: createOrder_def Let_def dispatched_after)
    then have "posts_payload p ''orders'' params (resolveClientId w params) (JStr s) r"
      by (intro posts_payload_apiPayload dispatched_post)
    then show ?thesis using Some Inr by blast
  qed
qed

lemma createWithdrawal_posts_computed:
  assumes "r \<in> set (dispatched (createWithdrawal w p params positionId))"
    and "\<not> truthy (get_prop params ''signature'')"
  shows "\<exists>kp s. starkKeyPair p = Some kp
           \<and> StarkExWithdrawal_sign w
               (withdrawalToSign params (resolveClientId w params) positionId kp) kp = Inr s
           \<and> posts_payload p ''withdrawals'' params (resolveClientId w params) (JStr s) r"
proof (cases "starkKeyPair p")
  case None
  then show ?thesis
    using assms by (simp add: createWithdrawal_def Let_def dispatched_no_request)
next
  case (Some kp)
  show ?thesis
  proof (cases "StarkExWithdrawal_sign w
      (withdrawalToSign params (resolveClientId w params) positionId kp) kp")
    case (Inl e)
    then show ?thesis
      using assms Some by (simp add: createWithdrawal_def Let_def dispatched_no_request)
  next
    case (Inr s)
    then have "r \<in> set (dispatched (post w p ''withdrawals''
        (apiPayload params (resolveClientId w params) (JStr s))))"
      using assms Some by (simp add: createWithdrawal_def Let_def dispatched_after)
    then have "posts_payload p ''withdrawals'' params (resolveClientId w params) (JStr s) r"
      by (intro posts_payload_apiPayload dispatched_post)
    then show ?thesis using Some Inr by blast
  qed
qed

lemma createOrder_supplied_dispatches:
  assumes "truthy (get_prop params ''signature'')"
    and "snd (sign w p ''/v3/orders'' POST (Date_toISOString w)
           (Some (apiPayload params (resolveClientId w params)
              (get_prop params ''signature'')))) = Inr a"
  shows "\<exists>r. dispatched (createOrder w p params positionId) = [r]
           \<and> posts_payload p ''orders'' params (resolveClientId w params)
               (get_prop params ''signature'') r"
proof -
  have "createOrder w p params positionId = post w p ''orders''
      (apiPayload params (resolveClientId w params) (get_prop params ''signature''))"
    using assms(1) by (simp add: createOrder_def Let_def)
  then show ?thesis
    using post_posts_payload [of w p "''orders''" params "resolveClientId w params"
        "get_prop params ''signature''" a] assms(2)
    by simp
qed

lemma createWithdrawal_supplied_dispatches:
  assumes "truthy (get_prop params ''signature'')"
    and "snd (sign w p ''/v3/withdrawals'' POST (Date_toISOString w)
           (Some (apiPayload params (resolveClientId w params)
              (get_prop params ''signature'')))) = Inr a"
  shows "\<exists>r. dispatched (createWithdrawal w p params positionId) = [r]
           \<and> posts_payload p ''withdrawals'' params (resolveClientId w params)
               (get_prop params ''signature'') r"
proof -
  have "createWithdrawal w p params positionId = post w p ''withdrawals''
      (apiPayload params (resolveClientId w params) (get_prop params ''signature''))"
    using assms(1) by (simp add: createWithdrawal_def Let_def)
  then show ?thesis
    using post_posts_payload [of w p "''withdrawals''" params "resolveClientId w params"
        "get_prop params ''signature''" a] assms(2)
    by simp
qed

lemma createOrder_computed_dispatches:
  assumes "\<not> truthy (get_prop params ''signature'')"
    and "starkKeyPair p = Some kp"
    and "StarkExOrder_sign w
           (orderToSign params (resolveClientId w params) positionId kp) kp = Inr s"
    and "snd (sign w p ''/v3/orders'' POST (Date_toISOString w)
           (Some (apiPayload params (resolveClientId w params) (JStr s)))) = Inr a"
  shows "(\<exists>r. dispatched (createOrder w p params positionId) = [r]
            \<and> posts_payload p ''orders'' params (resolveClientId w params) (JStr s) r)
       \<and> stark_signed (createOrder w p params positionId) =
           [(orderToSign params (resolveClientId w params) positionId kp, kp)]
       \<and> get_prop (orderToSign params (resolveClientId w params) positionId kp) ''clientId'' =
           resolveClientId w params"
proof -
  have eq: "createOrder w p params positionId =
      after [OrderSigned (orderToSign params (resolveClientId w params) positionId kp) kp]
        (post w p ''orders'' (apiPayload params (resolveClientId w params) (JStr s)))"
    using assms(1-3) by (simp add: createOrder_def Let_def)
  have "\<exists>r. dispatched (post w p ''orders''
        (apiPayload params (resolveClientId w params) (JStr s))) = [r]
      \<and> posts_payload p ''orders'' params (resolveClientId w params) (JStr s) r"
    using post_posts_payload [of w p "''orders''" params "resolveClientId w params" "JStr s" a]
      assms(4) by simp
  then show ?thesis
    by (simp add: eq dispatched_after stark_signed_after post_def stark_signed_request
          orderToSign_def get_prop_set_prop)
qed

lemma createWithdrawal_computed_dispatches:
  assumes "\<not> truthy (get_prop params ''signature'')"
    and "starkKeyPair p = Some kp"
    and "StarkExWithdrawal_sign w
           (withdrawalToSign params (resolveClientId w params) positionId kp) kp = Inr s"
    and "snd (sign w p ''/v3/withdrawals'' POST (Date_toISOString w)
           (Some (apiPayload params (resolveClientId w params) (JStr s)))) = Inr a"
  shows "(\<exists>r. dispatched (createWithdrawal w p params positionId) = [r]
            \<and> posts_payload p ''withdrawals'' params (resolveClientId w params) (JStr s) r)
       \<and> stark_signed (createWithdrawal w p params positionId) =
           [(withdrawalToSign params (resolveClientId w params) positionId kp, kp)]
       \<and> get_prop (withdrawalToSign params (resolveClientId w params) positionId kp)
           ''clientId'' = resolveClientId w params"
proof -
  have eq: "createWithdrawal w p params positionId =
      after [WithdrawalSigned
               (withdrawalToSign params (resolveClientId w params) positionId kp) kp]
        (post w p ''withdrawals'' (apiPayload params (resolveClientId w params) (JStr s)))"
    using assms(1-3) by (simp add: createWithdrawal_def Let_def)
  have "\<exists>r. dispatched (post w p ''withdrawals''
        (apiPayload params (resolveClientId w params) (JStr s))) = [r]
      \<and> posts_payload p ''withdrawals'' params (resolveClientId w params) (JStr s) r"
    using post_posts_payload [of w p "''withdrawals''" params "resolveClientId w params"
        "JStr s" a]
      assms(4) by simp
  then show ?thesis
    by (simp add: eq dispatched_after stark_signed_after post_def stark_signed_request
          withdrawalToSign_def get_prop_set_prop)
qed

text \<open>
  C5. Write \<open>c\<close> for the client id resolved at line 232 (312), and call final the
  signature the method settles on: the caller's when it is truthy, else the string the
  stark signing primitive returns for the value built from \<open>c\<close>. For \<^verbatim>\<open>createOrder\<close>
  and, with \<^verbatim>\<open>withdrawals\<close> for \<^verbatim>\<open>orders\<close>, for \<^verbatim>\<open>createWithdrawal\<close>:
  every request the method hands to the HTTP client is a POST to \<^verbatim>\<open>/v3/orders\<close> whose
  body is the caller's parameters plus \<^verbatim>\<open>clientId\<close>, holding \<open>c\<close>, and
  \<^verbatim>\<open>signature\<close>, holding the final signature, and nothing else; and whenever there is
  a final signature and the request signer succeeds, exactly one such request is
  handed over. When the method signed, the one value it signed holds the same \<open>c\<close> as
  \<^verbatim>\<open>clientId\<close>.
\<close>

theorem C5_posted_payload:
  "(r \<in> set (dispatched (createOrder w p params positionId)) \<longrightarrow>
      (truthy (get_prop params ''signature'') \<longrightarrow>
         posts_payload p ''orders'' params (resolveClientId w params)
           (get_prop params ''signature'') r) \<and>
      (\<not> truthy (get_prop params ''signature'') \<longrightarrow>
         (\<exists>kp s. starkKeyPair p = Some kp
            \<and> StarkExOrder_sign w
                (orderToSign params (resolveClientId w params) positionId kp) kp = Inr s
            \<and> posts_payload p ''orders'' params (resolveClientId w params) (JStr s) r)))
   \<and> (truthy (get_prop params ''signature'')
        \<and> snd (sign w p ''/v3/orders'' POST (Date_toISOString w)
             (Some (apiPayload params (resolveClientId w params)
                (get_prop params ''signature'')))) = Inr a \<longrightarrow>
      (\<exists>r. dispatched (createOrder w p params positionId) = [r]
         \<and> posts_payload p ''orders'' params (resolveClientId w params)
             (get_prop params ''signature'') r))
   \<and> (\<not> truthy (get_prop params ''signature'')
        \<and> starkKeyPair p = Some kp
        \<and> StarkExOrder_sign w
             (orderToSign params (resolveClientId w params) positionId kp) kp = Inr s
        \<and> snd (sign w p ''/v3/orders'' POST (Date_toISOString w)
             (Some (apiPayload params (resolveClientId w params) (JStr s)))) = Inr a \<longrightarrow>
      (\<exists>r. dispatched (createOrder w p params positionId) = [r]
         \<and> posts_payload p ''orders'' params (resolveClientId w params) (JStr s) r)
      \<and> stark_signed (createOrder w p params positionId) =
          [(orderToSign params (resolveClientId w params) positionId kp, kp)]
      \<and> get_prop (orderToSign params (resolveClientId w params) positionId kp) ''clientId'' =
          resolveClientId w params)
   \<and> (r \<in> set (dispatched (createWithdrawal w p params positionId)) \<longrightarrow>
      (truthy (get_prop params ''signature'') \<longrightarrow>
         posts_payload p ''withdrawals'' params (resolveClientId w params)
           (get_prop params ''signature'') r) \<and>
      (\<not> truthy (get_prop params ''signature'') \<longrightarrow>
         (\<exists>kp s. starkKeyPair p = Some kp
            \<and> StarkExWithdrawal_sign w
                (withdrawalToSign params (resolveClientId w params) positionId kp) kp = Inr s
            \<and> posts_payload p ''withdrawals'' params (resolveClientId w params) (JStr s) r)))
   \<and> (truthy (get_prop params ''signature'')
        \<and> snd (sign w p ''/v3/withdrawals'' POST (Date_toISOString w)
             (Some (apiPayload params (resolveClientId w params)
                (get_prop params ''signature'')))) = Inr a \<longrightarrow>
      (\<exists>r. dispatched (createWithdrawal w p params positionId) = [r]
         \<and> posts_payload p ''withdrawals'' params (resolveClientId w params)
             (get_prop params ''signature'') r))
   \<and> (\<not> truthy (get_prop params ''signature'')
        \<and> starkKeyPair p = Some kp
        \<and> StarkExWithdrawal_sign w
             (withdrawalToSign params (resolveClientId w params) positionId kp) kp = Inr s
        \<and> snd (sign w p ''/v3/withdrawals'' POST (Date_toISOString w)
             (Some (apiPayload params (resolveClientId w params) (JStr s)))) = Inr a \<longrightarrow>
      (\<exists>r. dispatched (createWithdrawal w p params positionId) = [r]
         \<and> posts_payload p ''withdrawals'' params (resolveClientId w params) (JStr s) r)
      \<and> stark_signed (createWithdrawal w p params positionId) =
          [(withdrawalToSign params (resolveClientId w params) positionId kp, kp)]
      \<and> get_prop (withdrawalToSign params (resolveClientId w params) positionId kp)
          ''clientId'' = resolveClientId w params)"
proof (intro conjI impI)
  assume "r \<in> set (dispatched (createOrder w p params positionId))"
    and "truthy (get_prop params ''signature'')"
  then show "posts_payload p ''orders'' params (resolveClientId w params)
      (get_prop params ''signature'') r"
    by (rule createOrder_posts_supplied)
next
  assume "r \<in> set (dispatched (createOrder w p params positionId))"
    and "\<not> truthy (get_prop params ''signature'')"
  then show "\<exists>kp s. starkKeyPair p = Some kp
      \<and> StarkExOrder_sign w
          (orderToSign params (resolveClientId w params) positionId kp) kp = Inr s
      \<and> posts_payload p ''orders'' params (resolveClientId w params) (JStr s) r"
    by (rule createOrder_posts_computed)
next
  assume "truthy (get_prop params ''signature'')
      \<and> snd (sign w p ''/v3/orders'' POST (Date_toISOString w)
           (Some (apiPayload params (resolveClientId w params)
              (get_prop params ''signature'')))) = Inr a"
  then show "\<exists>r. dispatched (createOrder w p params positionId) = [r]
      \<and> posts_payload p ''orders'' params (resolveClientId w params)
          (get_prop params ''signature'') r"
    using createOrder_supplied_dispatches by blast
next
  assume h: "\<not> truthy (get_prop params ''signature'')
      \<and> starkKeyPair p = Some kp
      \<and> StarkExOrder_sign w
           (orderToSign params (resolveClientId w params) positionId kp) kp = Inr s
      \<and> snd (sign w p ''/v3/orders'' POST (Date_toISOString w)
           (Some (apiPayload params (resolveClientId w params) (JStr s)))) = Inr a"
  note c = createOrder_computed_dispatches [of params p kp w positionId s a]
  show "\<exists>r. dispatched (createOrder w p params positionId) = [r]
      \<and> posts_payload p ''orders'' params (resolveClientId w params) (JStr s) r"
    using c h by blast
  show "stark_signed (createOrder w p params positionId) =
      [(orderToSign params (resolveClientId w params) positionId kp, kp)]"
    using c h by blast
  show "get_prop (orderToSign params (resolveClientId w params) positionId kp) ''clientId'' =
      resolveClientId w params"
    using c h by blast
next
  assume "r \<in> set (dispatched (createWithdrawal w p params positionId))"
    and "truthy (get_prop params ''signature'')"
  then show "posts_payload p ''withdrawals'' params (resolveClientId w params)
      (get_prop params ''signature'') r"
    by (rule createWithdrawal_posts_supplied)
next
  assume "r \<in> set (dispatched (createWithdrawal w p params positionId))"
    and "\<not> truthy (get_prop params ''signature'')"
  then show "\<exists>kp s. starkKeyPair p = Some kp
      \<and> StarkExWithdrawal_sign w
          (withdrawalToSign params (resolveClientId w params) positionId kp) kp = Inr s
      \<and> posts_payload p ''withdrawals'' params (resolveClientId w params) (JStr s) r"
    by (rule createWithdrawal_posts_computed)
next
  assume "truthy (get_prop params ''signature'')
      \<and> snd (sign w p ''/v3/withdrawals'' POST (Date_toISOString w)
           (Some (apiPayload params (resolveClientId w params)
              (get_prop params ''signature'')))) = Inr a"
  then show "\<exists>r. dispatched (createWithdrawal w p params positionId) = [r]
      \<and> posts_payload p ''withdrawals'' params (resolveClientId w params)
          (get_prop params ''signature'') r"
    using createWithdrawal_supplied_dispatches by blast
next
  assume h: "\<not> truthy (get_prop params ''signature'')
      \<and> starkKeyPair p = Some kp
      \<and> StarkExWithdrawal_sign w
           (withdrawalToSign params (resolveClientId w params) positionId kp) kp = Inr s
      \<and> snd (sign w p ''/v3/withdrawals'' POST (Date_toISOString w)
           (Some (apiPayload params (resolveClientId w params) (JStr s)))) = Inr a"
  note c = createWithdrawal_computed_dispatches [of params p kp w positionId s a]
  show "\<exists>r. dispatched (createWithdrawal w p params positionId) = [r]
      \<and> posts_payload p ''withdrawals'' params (resolveClientId w params) (JStr s) r"
    using c h by blast
  show "stark_signed (createWithdrawal w p params positionId) =
      [(withdrawalToSign params (resolveClientId w params) positionId kp, kp)]"
    using c h by blast
  show "get_prop (withdrawalToSign params (resolveClientId w params) positionId kp)
      ''clientId'' = resolveClientId w params"
    using c h by blast
qed

lemma sample_generateClientId: "generateClientId (Dec 4711 0) = ''4711''"
  by (simp add: generateClientId_def Number_toString_def nat_digits.simps digit_char_def
        slice2_def strip_leading_zeros_def Let_def)

theorem C5_witness:
  "(\<exists>r. dispatched (createOrder sample_world sample_client sample_order ''5'') = [r]
       \<and> posts_payload sample_client ''orders'' sample_order (JStr ''4711'')
           (JStr ''order-signed-by-stark'') r)
   \<and> stark_signed (createOrder sample_world sample_client sample_order ''5'') =
       [(orderToSign sample_order (JStr ''4711'') ''5'' sample_stark_key, sample_stark_key)]
   \<and> (\<exists>r. dispatched (createWithdrawal sample_world sample_client sample_withdrawal ''5'') = [r]
       \<and> posts_payload sample_client ''withdrawals'' sample_withdrawal (JStr ''4711'')
           (JStr ''withdrawal-signed-by-stark'') r)
   \<and> stark_signed (createWithdrawal sample_world sample_client sample_withdrawal ''5'') =
       [(withdrawalToSign sample_withdrawal (JStr ''4711'') ''5'' sample_stark_key,
         sample_stark_key)]
   \<and> (\<exists>r. dispatched (createOrder sample_world sample_client_no_stark
              (sample_order @ [(''signature'', JStr ''0x1234'')]) ''5'') = [r]
       \<and> posts_payload sample_client_no_stark ''orders''
           (sample_order @ [(''signature'', JStr ''0x1234'')]) (JStr ''4711'')
           (JStr ''0x1234'') r)"
proof -
  let ?signed = "sample_order @ [(''signature'', JStr ''0x1234'')]"
  have co: "resolveClientId sample_world sample_order = JStr ''4711''"
    by (simp add: resolveClientId_def js_or_def get_prop_def sample_order_def
          sample_world_def sample_generateClientId)
  have cw: "resolveClientId sample_world sample_withdrawal = JStr ''4711''"
    by (simp add: resolveClientId_def js_or_def get_prop_def sample_withdrawal_def
          sample_world_def sample_generateClientId)
  have cs: "resolveClientId sample_world ?signed = JStr ''4711''"
    by (simp add: resolveClientId_def js_or_def get_prop_def sample_order_def
          sample_world_def sample_generateClientId)
  have gs: "get_prop ?signed ''signature'' = JStr ''0x1234''"
    by (simp add: get_prop_def sample_order_def)
  have no: "\<not> truthy (get_prop sample_order ''signature'')"
    by (simp add: get_prop_def sample_order_def)
  have nw: "\<not> truthy (get_prop sample_withdrawal ''signature'')"
    by (simp add: get_prop_def sample_withdrawal_def)
  have ys: "truthy (get_prop ?signed ''signature'')"
    by (simp add: gs)
  have key: "starkKeyPair sample_client = Some sample_stark_key"
    by (simp add: sample_client_def)
  have so: "StarkExOrder_sign sample_world
      (orderToSign sample_order (JStr ''4711'') ''5'' sample_stark_key) sample_stark_key =
      Inr ''order-signed-by-stark''"
    by (simp add: sample_world_def sample_stark_key_def)
  have sw: "StarkExWithdrawal_sign sample_world
      (withdrawalToSign sample_withdrawal (JStr ''4711'') ''5'' sample_stark_key)
      sample_stark_key = Inr ''withdrawal-signed-by-stark''"
    by (simp add: sample_world_def sample_stark_key_def)
  have api: "\<And>q path d. snd (sign sample_world q path POST (Date_toISOString sample_world) d) =
      Inr (''request-signed-by-'' @ privateKey (apiKeyPair q))"
    by (simp add: sign_def sample_world_def Let_def)
  note order = C5_posted_payload [where w = sample_world and p = sample_client
      and params = sample_order and positionId = "''5''" and kp = sample_stark_key
      and s = "''order-signed-by-stark''"
      and a = "''request-signed-by-'' @ privateKey (apiKeyPair sample_client)"]
  note withdrawal = C5_posted_payload [where w = sample_world and p = sample_client
      and params = sample_withdrawal and positionId = "''5''" and kp = sample_stark_key
      and s = "''withdrawal-signed-by-stark''"
      and a = "''request-signed-by-'' @ privateKey (apiKeyPair sample_client)"]
  note supplied = C5_posted_payload [where w = sample_world and p = sample_client_no_stark
      and params = ?signed and positionId = "''5''"
      and a = "''request-signed-by-'' @ privateKey (apiKeyPair sample_client_no_stark)"]
  have o: "(\<exists>r. dispatched (createOrder sample_world sample_client sample_order ''5'') = [r]
       \<and> posts_payload sample_client ''orders'' sample_order (JStr ''4711'')
           (JStr ''order-signed-by-stark'') r)
     \<and> stark_signed (createOrder sample_world sample_client sample_order ''5'') =
       [(orderToSign sample_order (JStr ''4711'') ''5'' sample_stark_key, sample_stark_key)]"
    using order no key so api unfolding co by blast
  have wd: "(\<exists>r. dispatched (createWithdrawal sample_world sample_client sample_withdrawal ''5'')
          = [r]
       \<and> posts_payload sample_client ''withdrawals'' sample_withdrawal (JStr ''4711'')
           (JStr ''withdrawal-signed-by-stark'') r)
     \<and> stark_signed (createWithdrawal sample_world sample_client sample_withdrawal ''5'') =
       [(withdrawalToSign sample_withdrawal (JStr ''4711'') ''5'' sample_stark_key,
         sample_stark_key)]"
    using withdrawal nw key sw api unfolding cw by blast
  have su: "\<exists>r. dispatched (createOrder sample_world sample_client_no_stark ?signed ''5'') = [r]
       \<and> posts_payload sample_client_no_stark ''orders'' ?signed (JStr ''4711'')
           (JStr ''0x1234'') r"
    using supplied ys api unfolding cs gs by blast
  from o wd su show ?thesis by blast
qed

text \<open>
  C6. A request dispatched by \<^verbatim>\<open>request\<close> goes to the host followed by \<^verbatim>\<open>/v3/\<close> and
  the endpoint, and the path in the signed envelope is \<^verbatim>\<open>/v3/\<close> followed by the
  endpoint. \<^verbatim>\<open>get\<close> and \<^verbatim>\<open>delete\<close> call \<^verbatim>\<open>request\<close> with the endpoint that
  \<^verbatim>\<open>generateQueryPath\<close> built from the parameters, so the query string is part of
  the dispatched and of the signed path.
\<close>

theorem C6_request_path:
  "(r \<in> set (dispatched (request w p m endpoint d)) \<longrightarrow>
      url r = host p @ ''/v3/'' @ endpoint)
   \<and> map (\<lambda>(e, k). req_requestPath e) (api_signed (request w p m endpoint d)) =
       [''/v3/'' @ endpoint]
   \<and> get w p ep params = request w p GET (generateQueryPath w ep params) None
   \<and> delete w p ep params = request w p DELETE (generateQueryPath w ep params) None"
  by (auto simp: dispatched_request api_signed_request sign_envelope_def get_def delete_def
        split: sum.splits)

theorem C6_witness:
  "map url (dispatched (get sample_world sample_client ''orders'' [(''market'', JStr ''BTC-USD'')]))
     = [''https://api.dydx.exchange/v3/orders?market&'']
   \<and> map (\<lambda>(e, k). req_requestPath e)
        (api_signed (get sample_world sample_client ''orders'' [(''market'', JStr ''BTC-USD'')]))
     = [''/v3/orders?market&'']"
  using C6_request_path [of
      "\<lparr>url = ''https://api.dydx.exchange/v3/orders?market&'', http_method = GET,
        http_data = None,
        headers = [(''DYDX-SIGNATURE'', ''request-signed-by-api''),
                   (''DYDX-API-KEY'', ''pub-api''),
                   (''DYDX-TIMESTAMP'', ''2021-03-01T12:00:00.000Z'')]\<rparr>"
      sample_world sample_client GET "''orders?market&''" None
      "''orders''" "[(''market'', JStr ''BTC-USD'')]"]
  by (simp add: get_def request_def sign_def sign_envelope_def sample_world_def
        sample_client_def Let_def dispatched_def api_signed_def)



text \<open>
  C8. \<^verbatim>\<open>sign\<close> makes one call, to the API request signer, with the private key of
  the API key pair and the envelope made of the serialization of \<^verbatim>\<open>data\<close> (the empty
  string when \<^verbatim>\<open>data\<close> is absent), the request path, the method under the table of
  lines 41 to 46, the public key of the API key pair and the timestamp; what the signer
  answers is the result. So two invocations with the same path, method, timestamp and
  data, on clients with the same API key pair and with the same signing library and
  the same \<^verbatim>\<open>JSON.stringify\<close>, give the same result, whatever the hosts, the stark key
  pairs, \<^verbatim>\<open>Math.random()\<close> and the clock are: \<^verbatim>\<open>sign\<close> draws nothing of its own.
\<close>

theorem C8_sign_deterministic:
  assumes "apiKeyPair p1 = apiKeyPair p2"
    and "ApiRequest_sign w1 = ApiRequest_sign w2"
    and "JSON_stringify w1 = JSON_stringify w2"
  shows "sign w1 p1 requestPath m timestamp d = sign w2 p2 requestPath m timestamp d
       \<and> sign w1 p1 requestPath m timestamp d =
           ([ApiSigned
               \<lparr>req_body = (case d of None \<Rightarrow> [] | Some obj \<Rightarrow> JSON_stringify w1 obj),
                req_requestPath = requestPath,
                req_method = METHOD_ENUM_MAP m,
                req_publicKey = publicKey (apiKeyPair p1),
                req_expiresAt = timestamp\<rparr>
               (privateKey (apiKeyPair p1))],
            ApiRequest_sign w1
               \<lparr>req_body = (case d of None \<Rightarrow> [] | Some obj \<Rightarrow> JSON_stringify w1 obj),
                req_requestPath = requestPath,
                req_method = METHOD_ENUM_MAP m,
                req_publicKey = publicKey (apiKeyPair p1),
                req_expiresAt = timestamp\<rparr>
               (privateKey (apiKeyPair p1)))"
  using assms by (cases d) (simp_all add: sign_def sign_envelope_def Let_def)

theorem C8_witness:
  "apiKeyPair sample_client = apiKeyPair (sample_client_no_stark\<lparr>host := ''https://other.host''\<rparr>)
   \<and> sign sample_world sample_client ''/v3/orders'' POST ''2021-03-01T12:00:00.000Z''
         (Some sample_order)
     = sign (sample_world\<lparr>Math_random := Zero, Date_toISOString := ''2022-01-01T00:00:00.000Z''\<rparr>)
         (sample_client_no_stark\<lparr>host := ''https://other.host''\<rparr>)
         ''/v3/orders'' POST ''2021-03-01T12:00:00.000Z'' (Some sample_order)
   \<and> sign sample_world sample_client ''/v3/orders'' POST ''2021-03-01T12:00:00.000Z''
         (Some sample_order)
     = ([ApiSigned
           \<lparr>req_body = ''{market,side,type,size,price,expiration,}'',
            req_requestPath = ''/v3/orders'', req_method = ApiPOST,
            req_publicKey = ''pub-api'', req_expiresAt = ''2021-03-01T12:00:00.000Z''\<rparr>
           ''api''],
        Inr ''request-signed-by-api'')"
proof -
  have h1: "apiKeyPair sample_client =
      apiKeyPair (sample_client_no_stark\<lparr>host := ''https://other.host''\<rparr>)"
    by (simp add: sample_client_no_stark_def)
  have h2: "ApiRequest_sign sample_world =
      ApiRequest_sign (sample_world\<lparr>Math_random := Zero,
        Date_toISOString := ''2022-01-01T00:00:00.000Z''\<rparr>)"
    by simp
  have h3: "JSON_stringify sample_world =
      JSON_stringify (sample_world\<lparr>Math_random := Zero,
        Date_toISOString := ''2022-01-01T00:00:00.000Z''\<rparr>)"
    by simp
  note c8 = C8_sign_deterministic [OF h1 h2 h3, of "''/v3/orders''" POST
        "''2021-03-01T12:00:00.000Z''" "Some sample_order"]
  have same: "sign sample_world sample_client ''/v3/orders'' POST ''2021-03-01T12:00:00.000Z''
         (Some sample_order)
     = sign (sample_world\<lparr>Math_random := Zero, Date_toISOString := ''2022-01-01T00:00:00.000Z''\<rparr>)
         (sample_client_no_stark\<lparr>host := ''https://other.host''\<rparr>)
         ''/v3/orders'' POST ''2021-03-01T12:00:00.000Z'' (Some sample_order)"
    using c8 by blast
  have run: "sign sample_world sample_client ''/v3/orders'' POST ''2021-03-01T12:00:00.000Z''
         (Some sample_order)
     = ([ApiSigned
           \<lparr>req_body = ''{market,side,type,size,price,expiration,}'',
            req_requestPath = ''/v3/orders'', req_method = ApiPOST,
            req_publicKey = ''pub-api'', req_expiresAt = ''2021-03-01T12:00:00.000Z''\<rparr>
           ''api''],
        Inr ''request-signed-by-api'')"
    by (simp add: sign_def sign_envelope_def sample_world_def sample_client_def
          sample_order_def Let_def)
  from h1 same run show ?thesis by blast
qed

section \<open>The generated client id\<close>

lemma nat_digits_not_empty: "nat_digits n \<noteq> []"
  by (subst nat_digits.simps) simp

lemma digit_char_is_digit: "d < 10 \<Longrightarrow> is_digit (digit_char d)"
  by (simp add: is_digit_def digit_char_def del: set_simps)

lemma digit_char_zero_iff: "d < 10 \<Longrightarrow> digit_char d = CHR ''0'' \<longleftrightarrow> d = 0"
proof -
  assume d: "d < 10"
  have dist: "distinct ''0123456789''" by simp
  have "(''0123456789'' ! d = ''0123456789'' ! 0) = (d = 0)"
    using d by (subst nth_eq_iff_index_eq [OF dist]) simp_all
  then show ?thesis by (simp add: digit_char_def)
qed

lemma nat_digits_all_digits: "list_all is_digit (nat_digits n)"
proof (induction n rule: nat_digits.induct)
  case (1 n)
  show ?case
  proof (cases "n < 10")
    case True
    then show ?thesis by (subst nat_digits.simps) (simp add: digit_char_is_digit)
  next
    case False
    then show ?thesis
      using "1.IH" by (subst nat_digits.simps) (simp add: digit_char_is_digit)
  qed
qed

lemma nat_digits_hd: "0 < n \<Longrightarrow> hd (nat_digits n) \<noteq> CHR ''0''"
proof (induction n rule: nat_digits.induct)
  case (1 n)
  show ?case
  proof (cases "n < 10")
    case True
    then show ?thesis
      using "1.prems" by (subst nat_digits.simps) (simp add: digit_char_zero_iff)
  next
    case False
    then have "0 < n div 10" by simp
    then have "hd (nat_digits (n div 10)) \<noteq> CHR ''0''"
      using "1.IH" False by simp
    then show ?thesis
      using False by (subst nat_digits.simps) (simp add: nat_digits_not_empty)
  qed
qed

lemma strip_zeros_digits:
  "0 < s \<Longrightarrow> strip_leading_zeros (replicate k CHR ''0'' @ nat_digits s) = nat_digits s"
proof -
  assume s: "0 < s"
  obtain c cs where ds: "nat_digits s = c # cs"
    using nat_digits_not_empty [of s] by (cases "nat_digits s") auto
  with nat_digits_hd [OF s] have "c \<noteq> CHR ''0''" by simp
  then show ?thesis
    by (simp add: strip_leading_zeros_def ds dropWhile_append)
qed

lemma generateClientId_ordinary:
  assumes "0 < s" and "-6 < n" and "n \<le> 0"
  shows "generateClientId (Dec s n) = nat_digits s
       \<and> is_numeral (generateClientId (Dec s n))
       \<and> no_leading_zero (generateClientId (Dec s n))"
proof -
  have len: "\<not> int (length (nat_digits s)) \<le> n"
    using nat_digits_not_empty [of s] assms(3) by (cases "nat_digits s") auto
  have "Number_toString (Dec s n) = ''0.'' @ replicate (nat (- n)) CHR ''0'' @ nat_digits s"
    using assms len by (simp add: Number_toString_def Let_def)
  then have eq: "generateClientId (Dec s n) = nat_digits s"
    by (simp add: generateClientId_def slice2_def strip_zeros_digits [OF assms(1)])
  moreover have "is_numeral (nat_digits s)"
    by (simp add: is_numeral_def nat_digits_not_empty nat_digits_all_digits)
  moreover have "no_leading_zero (nat_digits s)"
    using nat_digits_hd [OF assms(1)] nat_digits_not_empty [of s]
    by (cases "nat_digits s") (simp_all add: no_leading_zero_def)
  ultimately show ?thesis by simp
qed

lemma generateClientId_exponent:
  "generateClientId (Dec 95367431640625 (-6)) = ''5367431640625e-7''"
  by (simp add: generateClientId_def Number_toString_def nat_digits.simps digit_char_def
        slice2_def strip_leading_zeros_def Let_def)

lemma generateClientId_zero: "generateClientId Zero = []"
  by (simp add: generateClientId_def Number_toString_def slice2_def strip_leading_zeros_def)

text \<open>
  C4. The generated client id is not always a numeral. When \<^verbatim>\<open>Math.random()\<close> returns
  a number below \<^verbatim>\<open>1e-6\<close>, such as 2 to the power -20, which prints as
  \<^verbatim>\<open>9.5367431640625e-7\<close>, its string is in exponent notation and the id keeps the
  letter \<^verbatim>\<open>e\<close> and the sign; when it returns 0 the id is the empty string. The last
  conjunct runs \<^verbatim>\<open>createOrder\<close> on such a number: the id goes into the posted body as
  it is. (\<open>generateClientId_ordinary\<close> above is what holds: from \<^verbatim>\<open>1e-6\<close> on, the id
  is a numeral with no leading zero.)
\<close>

theorem C4_generated_id_not_numeral:
  "generateClientId (Dec 95367431640625 (-6)) = ''5367431640625e-7''
   \<and> \<not> is_numeral (generateClientId (Dec 95367431640625 (-6)))
   \<and> generateClientId Zero = []
   \<and> \<not> is_numeral (generateClientId Zero)
   \<and> map (\<lambda>r. map_option (\<lambda>d. get_prop d ''clientId'') (http_data r))
        (dispatched (createOrder (sample_world\<lparr>Math_random := Dec 95367431640625 (-6)\<rparr>)
           sample_client sample_order ''5''))
     = [Some (JStr ''5367431640625e-7'')]"
  by (simp add: generateClientId_exponent generateClientId_zero is_numeral_def is_digit_def
        createOrder_def resolveClientId_def js_or_def get_prop_def sample_order_def
        sample_world_def sample_client_def sample_stark_key_def
        orderToSign_def apiPayload_def post_def request_def sign_def sign_envelope_def
        after_def Let_def dispatched_def)


section \<open>The gated modules of the client\<close>

lemma get_keys_new:
  "fst (get_keys (DydxClient_new h options)) = Instance (Keys h (Web3 (opt_web3Provider options)))"
  by (simp add: get_keys_def DydxClient_new_def Let_def)

lemma get_onboarding_new:
  "fst (get_onboarding (DydxClient_new h options)) =
     Instance (Onboarding h (Web3 (opt_web3Provider options)))"
  by (simp add: get_onboarding_def DydxClient_new_def Let_def)

lemma get_eth_new:
  "fst (get_eth (DydxClient_new h options)) = Instance (Eth (Web3 (opt_web3Provider options)))"
  by (simp add: get_eth_def DydxClient_new_def Let_def)

lemma get_private_without_key:
  assumes "\<not> truthy_key (apiPrivateKey c)" and "private_module c = None"
  shows "get_private w c = (Inr (Stub privateNotSupported), c)"
  using assms by (simp add: get_private_def)

lemma get_private_new_without_key:
  assumes "\<not> truthy_key (opt_apiPrivateKey options)"
  shows "get_private w (DydxClient_new h options) =
           (Inr (Stub privateNotSupported), DydxClient_new h options)"
  using assms by (simp add: get_private_def DydxClient_new_def)

text \<open>
  C3. A client constructed with no options at all returns real \<^verbatim>\<open>Keys\<close>,
  \<^verbatim>\<open>Onboarding\<close> and \<^verbatim>\<open>Eth\<close> modules, built on a \<^verbatim>\<open>Web3\<close> without provider, and
  not the stubs: the constructor always sets \<^verbatim>\<open>this.web3\<close>, so the stub branch of
  the three getters is never taken. Only the \<^verbatim>\<open>private\<close> getter returns its stub
  (\<open>get_private_without_key\<close> above: on every access, the client unchanged).
\<close>

theorem C3_gated_without_provider:
  "fst (get_keys (DydxClient_new ''https://api.dydx.exchange'' no_options)) =
     Instance (Keys ''https://api.dydx.exchange'' (Web3 None))
   \<and> fst (get_onboarding (DydxClient_new ''https://api.dydx.exchange'' no_options)) =
     Instance (Onboarding ''https://api.dydx.exchange'' (Web3 None))
   \<and> fst (get_eth (DydxClient_new ''https://api.dydx.exchange'' no_options)) =
     Instance (Eth (Web3 None))
   \<and> fst (get_private sample_world (DydxClient_new ''https://api.dydx.exchange'' no_options)) =
     Inr (Stub privateNotSupported)"
  by (simp add: get_keys_new get_onboarding_new get_eth_new get_private_new_without_key
        no_options_def)

section \<open>What is signed, and what the caller supplied\<close>

lemma fst_after: "fst (after evs out) = evs @ fst out"
  by (simp add: after_def)

lemma createOrder_signs:
  assumes "\<not> truthy (get_prop params ''signature'')" and "starkKeyPair p = Some kp"
  shows "take 1 (fst (createOrder w p params positionId)) =
           [OrderSigned (orderToSign params (resolveClientId w params) positionId kp) kp]
       \<and> stark_signed (createOrder w p params positionId) =
           [(orderToSign params (resolveClientId w params) positionId kp, kp)]"
  using assms
  by (simp add: createOrder_def Let_def fst_after stark_signed_after stark_signed_simple
        post_def stark_signed_request split: sum.splits)

lemma createWithdrawal_signs:
  assumes "\<not> truthy (get_prop params ''signature'')" and "starkKeyPair p = Some kp"
  shows "take 1 (fst (createWithdrawal w p params positionId)) =
           [WithdrawalSigned (withdrawalToSign params (resolveClientId w params) positionId kp) kp]
       \<and> stark_signed (createWithdrawal w p params positionId) =
           [(withdrawalToSign params (resolveClientId w params) positionId kp, kp)]"
  using assms
  by (simp add: createWithdrawal_def Let_def fst_after stark_signed_after stark_signed_simple
        post_def stark_signed_request split: sum.splits)

text \<open>
  C2, as stated, fails for a withdrawal: the value handed to the signing primitive has a
  property \<^verbatim>\<open>debitAmount\<close>, which is neither one of the caller's nor one of
  \<^verbatim>\<open>clientId\<close>, \<^verbatim>\<open>positionId\<close>, \<^verbatim>\<open>starkKey\<close> and \<^verbatim>\<open>expiresAt\<close>.
\<close>

theorem C2_counterexample:
  "''signature'' \<notin> set (Object_keys sample_withdrawal)
   \<and> starkKeyPair sample_client = Some sample_stark_key
   \<and> stark_signed (createWithdrawal sample_world sample_client sample_withdrawal ''5'') =
       [(sample_withdrawal @
           [(''clientId'', JStr ''4711''), (''starkKey'', JStr ''pub-stark''),
            (''debitAmount'', JStr ''100''),
            (''expiresAt'', JStr ''2021-04-01T00:00:00.000Z''),
            (''positionId'', JStr ''5'')],
         sample_stark_key)]
   \<and> \<not> carries_exactly sample_withdrawal
         (sample_withdrawal @
           [(''clientId'', JStr ''4711''), (''starkKey'', JStr ''pub-stark''),
            (''debitAmount'', JStr ''100''),
            (''expiresAt'', JStr ''2021-04-01T00:00:00.000Z''),
            (''positionId'', JStr ''5'')])
         (signable_fields sample_withdrawal (JStr ''4711'') ''5'' sample_stark_key)"
proof -
  let ?v = "sample_withdrawal @
           [(''clientId'', JStr ''4711''), (''starkKey'', JStr ''pub-stark''),
            (''debitAmount'', JStr ''100''),
            (''expiresAt'', JStr ''2021-04-01T00:00:00.000Z''),
            (''positionId'', JStr ''5'')]"
  let ?claimed = "signable_fields sample_withdrawal (JStr ''4711'') ''5'' sample_stark_key"
  have omitted: "''signature'' \<notin> set (Object_keys sample_withdrawal)"
    by (simp add: sample_withdrawal_def Object_keys_def)
  have key: "starkKeyPair sample_client = Some sample_stark_key"
    by (simp add: sample_client_def)
  have signed:
    "stark_signed (createWithdrawal sample_world sample_client sample_withdrawal ''5'') =
       [(?v, sample_stark_key)]"
    by (simp add: createWithdrawal_def resolveClientId_def js_or_def get_prop_def
          sample_withdrawal_def sample_world_def sample_client_def sample_stark_key_def
          sample_generateClientId withdrawalToSign_def apiPayload_def post_def request_def
          sign_def sign_envelope_def after_def Let_def stark_signed_def)
  have extra: "''debitAmount'' \<in> set (Object_keys ?v)"
    by (simp add: Object_keys_def)
  have not_claimed:
    "''debitAmount'' \<notin> set (Object_keys sample_withdrawal) \<union> set (map fst ?claimed)"
    by (simp add: sample_withdrawal_def Object_keys_def signable_fields_def)
  have "set (Object_keys ?v) \<noteq> set (Object_keys sample_withdrawal) \<union> set (map fst ?claimed)"
    using extra not_claimed by metis
  then have "\<not> carries_exactly sample_withdrawal ?v ?claimed"
    by (simp only: carries_exactly_def) blast
  with omitted key signed show ?thesis by blast
qed

text \<open>
  C2, amended. When the parameters have no \<^verbatim>\<open>signature\<close> and the client holds a stark
  key pair, the first call of \<^verbatim>\<open>createOrder\<close> hands to the order signing primitive the
  caller's properties plus \<^verbatim>\<open>clientId\<close> (the resolved id), \<^verbatim>\<open>positionId\<close>,
  \<^verbatim>\<open>starkKey\<close> (the stark public key) and \<^verbatim>\<open>expiresAt\<close> (the caller's
  \<^verbatim>\<open>expiration\<close>), and no value is signed besides. \<^verbatim>\<open>createWithdrawal\<close> hands to the
  withdrawal signing primitive the same plus \<^verbatim>\<open>debitAmount\<close>, the caller's
  \<^verbatim>\<open>amount\<close>. No other property is added or changed.
\<close>

theorem C2_signable_value:
  assumes "''signature'' \<notin> set (Object_keys params)" and "starkKeyPair p = Some kp"
  shows "take 1 (fst (createOrder w p params positionId)) =
           [OrderSigned (orderToSign params (resolveClientId w params) positionId kp) kp]
       \<and> stark_signed (createOrder w p params positionId) =
           [(orderToSign params (resolveClientId w params) positionId kp, kp)]
       \<and> carries_exactly params
           (orderToSign params (resolveClientId w params) positionId kp)
           (signable_fields params (resolveClientId w params) positionId kp)
       \<and> take 1 (fst (createWithdrawal w p params positionId)) =
           [WithdrawalSigned
              (withdrawalToSign params (resolveClientId w params) positionId kp) kp]
       \<and> stark_signed (createWithdrawal w p params positionId) =
           [(withdrawalToSign params (resolveClientId w params) positionId kp, kp)]
       \<and> carries_exactly params
           (withdrawalToSign params (resolveClientId w params) positionId kp)
           (signable_fields params (resolveClientId w params) positionId kp @
              [(''debitAmount'', get_prop params ''amount'')])"
proof -
  have falsy: "\<not> truthy (get_prop params ''signature'')"
    using assms(1) by (rule omitted_not_truthy)
  show ?thesis
    using createOrder_signs [OF falsy assms(2)] createWithdrawal_signs [OF falsy assms(2)]
      carries_exactly_orderToSign carries_exactly_withdrawalToSign
    by simp
qed

theorem C2_witness:
  "''signature'' \<notin> set (Object_keys sample_order)
   \<and> starkKeyPair sample_client = Some sample_stark_key
   \<and> stark_signed (createOrder sample_world sample_client sample_order ''5'') =
       [(sample_order @
           [(''clientId'', JStr ''4711''), (''positionId'', JStr ''5''),
            (''starkKey'', JStr ''pub-stark''),
            (''expiresAt'', JStr ''2021-04-01T00:00:00.000Z'')],
         sample_stark_key)]
   \<and> carries_exactly sample_order
         (sample_order @
           [(''clientId'', JStr ''4711''), (''positionId'', JStr ''5''),
            (''starkKey'', JStr ''pub-stark''),
            (''expiresAt'', JStr ''2021-04-01T00:00:00.000Z'')])
         (signable_fields sample_order (JStr ''4711'') ''5'' sample_stark_key)"
proof -
  have h1: "''signature'' \<notin> set (Object_keys sample_order)"
    by (simp add: sample_order_def Object_keys_def)
  have h2: "starkKeyPair sample_client = Some sample_stark_key"
    by (simp add: sample_client_def)
  have c: "resolveClientId sample_world sample_order = JStr ''4711''"
    by (simp add: resolveClientId_def js_or_def get_prop_def sample_order_def
          sample_world_def sample_generateClientId)
  have v: "orderToSign sample_order (JStr ''4711'') ''5'' sample_stark_key =
      sample_order @
           [(''clientId'', JStr ''4711''), (''positionId'', JStr ''5''),
            (''starkKey'', JStr ''pub-stark''),
            (''expiresAt'', JStr ''2021-04-01T00:00:00.000Z'')]"
    by (simp add: orderToSign_def sample_order_def sample_stark_key_def get_prop_def)
  show ?thesis
    using C2_signable_value [OF h1 h2, of sample_world "''5''"] h1 h2
    by (simp add: c v)
qed

lemma request_ignores_stark_key:
  "request w (p\<lparr>starkKeyPair := k\<rparr>) m endpoint d = request w p m endpoint d"
  by (simp add: request_def sign_def sign_envelope_def Let_def)

lemma createOrder_with_signature:
  assumes "truthy (get_prop params ''signature'')"
  shows "createOrder w p params positionId =
           post w p ''orders''
             (apiPayload params (resolveClientId w params) (get_prop params ''signature''))"
  using assms by (simp add: createOrder_def Let_def)

lemma createWithdrawal_with_signature:
  assumes "truthy (get_prop params ''signature'')"
  shows "createWithdrawal w p params positionId =
           post w p ''withdrawals''
             (apiPayload params (resolveClientId w params) (get_prop params ''signature''))"
  using assms by (simp add: createWithdrawal_def Let_def)

lemma get_prop_apiPayload:
  "get_prop (apiPayload params c sg) ''clientId'' = c"
  "get_prop (apiPayload params c sg) ''signature'' = sg"
  by (simp_all add: apiPayload_def get_prop_set_prop)

text \<open>
  C9, as stated, fails for the empty string: a \<^verbatim>\<open>signature\<close> that is present and
  falsy is treated as absent (\<^verbatim>\<open>if (!signature)\<close>), so on a client without stark key
  pair the call fails with the error of line 237.
\<close>

theorem C9_counterexample:
  "get_prop (sample_order @ [(''signature'', JStr [])]) ''signature'' = JStr []
   \<and> ''signature'' \<in> set (Object_keys (sample_order @ [(''signature'', JStr [])]))
   \<and> starkKeyPair sample_client_no_stark = None
   \<and> createOrder sample_world sample_client_no_stark
         (sample_order @ [(''signature'', JStr [])]) ''5'' =
       ([], Inl (Error
          ''Order is not signed and client was not initialized with starkPrivateKey''))"
  by (simp add: createOrder_def get_prop_def sample_order_def sample_client_no_stark_def
        sample_client_def Object_keys_def Let_def)

text \<open>
  C9, amended. When the parameters hold a truthy (for a string: non-empty)
  \<^verbatim>\<open>signature\<close>, \<^verbatim>\<open>createOrder\<close> and \<^verbatim>\<open>createWithdrawal\<close> are the POST of the
  parameters with the resolved client id and that signature unchanged; no value is
  handed to the stark signing primitive; and the outcome is the same on the client with
  its stark key pair removed.
\<close>

theorem C9_explicit_signature:
  assumes "truthy (get_prop params ''signature'')"
  shows "createOrder w p params positionId =
           post w p ''orders''
             (apiPayload params (resolveClientId w params) (get_prop params ''signature''))
       \<and> createWithdrawal w p params positionId =
           post w p ''withdrawals''
             (apiPayload params (resolveClientId w params) (get_prop params ''signature''))
       \<and> get_prop (apiPayload params (resolveClientId w params) (get_prop params ''signature''))
           ''signature'' = get_prop params ''signature''
       \<and> stark_signed (createOrder w p params positionId) = []
       \<and> stark_signed (createWithdrawal w p params positionId) = []
       \<and> createOrder w (p\<lparr>starkKeyPair := None\<rparr>) params positionId =
           createOrder w p params positionId
       \<and> createWithdrawal w (p\<lparr>starkKeyPair := None\<rparr>) params positionId =
           createWithdrawal w p params positionId"
  by (simp add: createOrder_with_signature [OF assms] createWithdrawal_with_signature [OF assms]
        get_prop_apiPayload post_def stark_signed_request request_ignores_stark_key)

theorem C9_witness:
  "truthy (get_prop (sample_order @ [(''signature'', JStr ''0x1234'')]) ''signature'')
   \<and> stark_signed (createOrder sample_world sample_client_no_stark
         (sample_order @ [(''signature'', JStr ''0x1234'')]) ''5'') = []
   \<and> map (\<lambda>r. map_option (\<lambda>d. get_prop d ''signature'') (http_data r))
        (dispatched (createOrder sample_world sample_client_no_stark
           (sample_order @ [(''signature'', JStr ''0x1234'')]) ''5''))
     = [Some (JStr ''0x1234'')]"
proof -
  have h: "truthy (get_prop (sample_order @ [(''signature'', JStr ''0x1234'')]) ''signature'')"
    by (simp add: get_prop_def sample_order_def)
  have g: "get_prop (sample_order @ [(''signature'', JStr ''0x1234'')]) ''signature'' =
      JStr ''0x1234''"
    by (simp add: get_prop_def sample_order_def)
  note c9 = C9_explicit_signature [OF h, of sample_world sample_client_no_stark "''5''"]
  have eq: "createOrder sample_world sample_client_no_stark
        (sample_order @ [(''signature'', JStr ''0x1234'')]) ''5'' =
      post sample_world sample_client_no_stark ''orders''
        (apiPayload (sample_order @ [(''signature'', JStr ''0x1234'')])
           (resolveClientId sample_world (sample_order @ [(''signature'', JStr ''0x1234'')]))
           (JStr ''0x1234''))"
    using c9 by (simp add: g)
  have none: "stark_signed (createOrder sample_world sample_client_no_stark
        (sample_order @ [(''signature'', JStr ''0x1234'')]) ''5'') = []"
    using c9 by blast
  have sent: "map (\<lambda>r. map_option (\<lambda>d. get_prop d ''signature'') (http_data r))
        (dispatched (createOrder sample_world sample_client_no_stark
           (sample_order @ [(''signature'', JStr ''0x1234'')]) ''5''))
     = [Some (JStr ''0x1234'')]"
    unfolding eq
    by (simp add: post_def dispatched_request get_prop_apiPayload sample_world_def)
  from h none sent show ?thesis by blast
qed

lemma createOrder_signed_clientId:
  assumes "(v, kp) \<in> set (stark_signed (createOrder w p params positionId))"
  shows "get_prop v ''clientId'' = resolveClientId w params"
  using assms
  by (auto simp: createOrder_def Let_def stark_signed_after stark_signed_simple post_def
        stark_signed_request orderToSign_def get_prop_set_prop
      split: if_splits option.splits sum.splits)

lemma createWithdrawal_signed_clientId:
  assumes "(v, kp) \<in> set (stark_signed (createWithdrawal w p params positionId))"
  shows "get_prop v ''clientId'' = resolveClientId w params"
  using assms
  by (auto simp: createWithdrawal_def Let_def stark_signed_after stark_signed_simple post_def
        stark_signed_request withdrawalToSign_def get_prop_set_prop
      split: if_splits option.splits sum.splits)

lemma createOrder_posted_clientId:
  assumes "r \<in> set (dispatched (createOrder w p params positionId))"
  shows "map_option (\<lambda>d. get_prop d ''clientId'') (http_data r) = Some (resolveClientId w params)"
proof -
  obtain sg where "r \<in> set (dispatched (post w p ''orders''
      (apiPayload params (resolveClientId w params) sg)))"
    using createOrder_dispatched [OF assms] by blast
  then have "http_data r = Some (apiPayload params (resolveClientId w params) sg)"
    using dispatched_post by blast
  then show ?thesis by (simp add: get_prop_apiPayload)
qed

lemma createWithdrawal_posted_clientId:
  assumes "r \<in> set (dispatched (createWithdrawal w p params positionId))"
  shows "map_option (\<lambda>d. get_prop d ''clientId'') (http_data r) = Some (resolveClientId w params)"
proof -
  obtain sg where "r \<in> set (dispatched (post w p ''withdrawals''
      (apiPayload params (resolveClientId w params) sg)))"
    using createWithdrawal_dispatched [OF assms] by blast
  then have "http_data r = Some (apiPayload params (resolveClientId w params) sg)"
    using dispatched_post by blast
  then show ?thesis by (simp add: get_prop_apiPayload)
qed

text \<open>
  C10, as stated, fails for the empty string: a \<^verbatim>\<open>clientId\<close> that is present and falsy
  is replaced by a generated one (\<^verbatim>\<open>params.clientId || ...\<close>) in the signed value and
  in the posted body.
\<close>

theorem C10_counterexample:
  "get_prop ((''clientId'', JStr []) # sample_order) ''clientId'' = JStr []
   \<and> ''clientId'' \<in> set (Object_keys ((''clientId'', JStr []) # sample_order))
   \<and> map (\<lambda>r. map_option (\<lambda>d. get_prop d ''clientId'') (http_data r))
        (dispatched (createOrder sample_world sample_client
           ((''clientId'', JStr []) # sample_order) ''5''))
     = [Some (JStr ''4711'')]
   \<and> map (\<lambda>(v, kp). get_prop v ''clientId'')
        (stark_signed (createOrder sample_world sample_client
           ((''clientId'', JStr []) # sample_order) ''5''))
     = [JStr ''4711'']"
  by (simp add: createOrder_def resolveClientId_def js_or_def get_prop_def sample_order_def
        sample_world_def sample_client_def sample_stark_key_def sample_generateClientId
        orderToSign_def apiPayload_def post_def request_def sign_def sign_envelope_def
        after_def Let_def dispatched_def stark_signed_def Object_keys_def)

text \<open>
  C10, amended. When the parameters hold a truthy (for a string: non-empty)
  \<^verbatim>\<open>clientId\<close>, it is the resolved client id, it is the \<^verbatim>\<open>clientId\<close> of every value
  handed to the stark signing primitive, and it is the \<^verbatim>\<open>clientId\<close> of the body of
  every dispatched request, for \<^verbatim>\<open>createOrder\<close> and for \<^verbatim>\<open>createWithdrawal\<close>.
\<close>

theorem C10_explicit_clientId:
  assumes "truthy (get_prop params ''clientId'')"
  shows "resolveClientId w params = get_prop params ''clientId''
       \<and> (r \<in> set (dispatched (createOrder w p params positionId)) \<longrightarrow>
            map_option (\<lambda>d. get_prop d ''clientId'') (http_data r) =
              Some (get_prop params ''clientId''))
       \<and> ((v, kp) \<in> set (stark_signed (createOrder w p params positionId)) \<longrightarrow>
            get_prop v ''clientId'' = get_prop params ''clientId'')
       \<and> (r \<in> set (dispatched (createWithdrawal w p params positionId)) \<longrightarrow>
            map_option (\<lambda>d. get_prop d ''clientId'') (http_data r) =
              Some (get_prop params ''clientId''))
       \<and> ((v, kp) \<in> set (stark_signed (createWithdrawal w p params positionId)) \<longrightarrow>
            get_prop v ''clientId'' = get_prop params ''clientId'')"
proof -
  have c: "resolveClientId w params = get_prop params ''clientId''"
    using assms by (simp add: resolveClientId_def js_or_def)
  show ?thesis
    using createOrder_posted_clientId [of r w p params positionId]
      createOrder_signed_clientId [of v kp w p params positionId]
      createWithdrawal_posted_clientId [of r w p params positionId]
      createWithdrawal_signed_clientId [of v kp w p params positionId]
    by (simp add: c)
qed

theorem C10_witness:
  "truthy (get_prop ((''clientId'', JStr ''007'') # sample_order) ''clientId'')
   \<and> map (\<lambda>r. map_option (\<lambda>d. get_prop d ''clientId'') (http_data r))
        (dispatched (createOrder sample_world sample_client
           ((''clientId'', JStr ''007'') # sample_order) ''5''))
     = [Some (JStr ''007'')]
   \<and> map (\<lambda>(v, kp). get_prop v ''clientId'')
        (stark_signed (createOrder sample_world sample_client
           ((''clientId'', JStr ''007'') # sample_order) ''5''))
     = [JStr ''007'']"
proof -
  let ?ps = "(''clientId'', JStr ''007'') # sample_order"
  let ?v = "?ps @ [(''positionId'', JStr ''5''), (''starkKey'', JStr ''pub-stark''),
       (''expiresAt'', JStr ''2021-04-01T00:00:00.000Z'')]"
  let ?r = "\<lparr>url = ''https://api.dydx.exchange/v3/orders'', http_method = POST,
      http_data = Some (?ps @ [(''signature'', JStr ''order-signed-by-stark'')]),
      headers = [(''DYDX-SIGNATURE'', ''request-signed-by-api''),
                 (''DYDX-API-KEY'', ''pub-api''),
                 (''DYDX-TIMESTAMP'', ''2021-03-01T12:00:00.000Z'')]\<rparr>"
  have h: "truthy (get_prop ?ps ''clientId'')"
    by (simp add: get_prop_def)
  have run: "fst (createOrder sample_world sample_client ?ps ''5'') =
      [OrderSigned ?v sample_stark_key,
       ApiSigned
         \<lparr>req_body = ''{clientId,market,side,type,size,price,expiration,signature,}'',
          req_requestPath = ''/v3/orders'', req_method = ApiPOST,
          req_publicKey = ''pub-api'', req_expiresAt = ''2021-03-01T12:00:00.000Z''\<rparr>
         ''api'',
       Dispatched ?r]"
    by (simp add: createOrder_def resolveClientId_def js_or_def get_prop_def sample_order_def
        sample_world_def sample_client_def sample_stark_key_def
        orderToSign_def apiPayload_def post_def request_def sign_def sign_envelope_def
        after_def Let_def)
  show ?thesis
    using C10_explicit_clientId [OF h, where w = sample_world and r = ?r and p = sample_client
        and positionId = "''5''" and v = ?v and kp = sample_stark_key] h
    by (simp add: dispatched_def stark_signed_def run get_prop_def)
qed

end
